theory Spec2Isabelle
  imports Complex_Main
begin

section \<open>Python values, exceptions and the helpers used on them\<close>

text \<open>
  The module \<^verbatim>\<open>resources/lib/api/shakti.py\<close> is dynamically typed: video ids, list
  ids, parsed JSON answers of the service and the wrapper objects of
  \<^verbatim>\<open>data_types\<close> all travel through the same cache. One datatype holds them. The
  last four constructors are the classes imported from \<^verbatim>\<open>.data_types\<close>, applied to
  their constructor arguments. A float is modelled by the rational number it denotes;
  the infinities and NaN are left out.
\<close>

datatype pyval =
    PyNone
  | PyBool bool
  | PyInt int
  | PyFloat rat
  | PyStr string
  | PyList "pyval list"
  | PyDict "(string \<times> pyval) list"
  | LoLoMo pyval
  | VideoList pyval
  | SeasonList pyval pyval
  | EpisodeList pyval pyval pyval

text \<open>
  \<open>InvalidVideoListTypeError\<close> is the exception class the module declares.
  \<open>CallError\<close> stands for whatever \<^verbatim>\<open>common.make_call\<close> raises when the remote call
  fails. The others are the built-in exceptions of the same names.
\<close>

datatype error =
    InvalidVideoListTypeError
  | CallError
  | KeyError
  | TypeError
  | AttributeError
  | ValueError

text \<open>
  \<^verbatim>\<open>d[k]\<close> for a string literal \<open>k\<close>: a dictionary raises KeyError on a missing key;
  the other built-in values cannot be indexed by a string (TypeError). The classes of
  \<^verbatim>\<open>data_types\<close> are taken not to support it either.
\<close>

definition py_getitem :: "pyval \<Rightarrow> string \<Rightarrow> error + pyval" where
  "py_getitem d k =
     (case d of
        PyDict kvs \<Rightarrow> (case map_of kvs k of None \<Rightarrow> Inl KeyError | Some v \<Rightarrow> Inr v)
      | _ \<Rightarrow> Inl TypeError)"

text \<open>
  \<^verbatim>\<open>d.get(k, default)\<close>: only a dictionary has the method (AttributeError otherwise).
  The dictionaries here have string keys, so a key that is not a string is not found,
  and a list or a dictionary used as key is unhashable (TypeError).
\<close>

definition py_get :: "pyval \<Rightarrow> pyval \<Rightarrow> pyval \<Rightarrow> error + pyval" where
  "py_get d k dflt =
     (case d of
        PyDict kvs \<Rightarrow>
          (case k of
             PyStr s \<Rightarrow> (case map_of kvs s of None \<Rightarrow> Inr dflt | Some v \<Rightarrow> Inr v)
           | PyList _ \<Rightarrow> Inl TypeError
           | PyDict _ \<Rightarrow> Inl TypeError
           | _ \<Rightarrow> Inr dflt)
      | _ \<Rightarrow> Inl AttributeError)"

section \<open>State, environment and the remote service\<close>

datatype bucket =
    CACHE_COMMON
  | CACHE_VIDEO_LIST
  | CACHE_SEASONS
  | CACHE_EPISODES
  | CACHE_METADATA

datatype ttl = Seconds int | NoExpiry

type_synonym key = "bucket \<times> pyval"

record entry =
  payload :: pyval
  created_at :: int
  entry_ttl :: ttl

text \<open>The methods of \<^verbatim>\<open>NetflixSession\<close> that the module hands to \<^verbatim>\<open>common.make_call\<close>.\<close>

datatype session_method =
    NetflixSession_activate_profile
  | NetflixSession_logout
  | NetflixSession_login
  | NetflixSession_list_profiles
  | NetflixSession_path_request
  | NetflixSession_post
  | NetflixSession_get

text \<open>
  What an operation does to the world outside its return value is recorded in order:
  every remote call with its arguments, and every call of an invalidation operation.
\<close>

datatype event =
    Call session_method "pyval list"
  | Invalidate_cache
  | Invalidate_entry bucket pyval
  | Invalidate_last_location

record state =
  mem :: "key \<rightharpoonup> entry"
  disk :: "key \<rightharpoonup> entry"
  last_location :: "pyval option"
  now :: int
  trace :: "event list"

text \<open>
  Everything the module reads but does not define. \<open>remote\<close> is the service behind
  \<^verbatim>\<open>common.make_call\<close>: its answer may depend on how many events happened before the
  call, and \<open>None\<close> is a failed call. \<open>lists_by_context\<close> is the method of that name
  of a \<^verbatim>\<open>LoLoMo\<close> object, as the list of the (list id, video list) pairs it yields
  for the data the object wraps. \<open>find_episode\<close> is \<^verbatim>\<open>common.find_episode\<close>.
  \<open>str_to_int\<close> is the built-in \<^verbatim>\<open>int\<close> on strings (\<open>None\<close>: ValueError).
  \<open>invalidate_cache_on_mylist_modify\<close> is the add-on setting of that name,
  \<open>CACHE_METADATA_TTL\<close> the constant of \<^verbatim>\<open>common\<close>, \<open>default_ttl\<close> the default
  expiry of each bucket, and the four lists of partial paths the constants imported
  from \<^verbatim>\<open>.paths\<close>.
\<close>

record env =
  remote :: "nat \<Rightarrow> session_method \<Rightarrow> pyval list \<Rightarrow> pyval option"
  lists_by_context :: "pyval \<Rightarrow> pyval \<Rightarrow> (pyval \<times> pyval) list"
  find_episode :: "pyval \<Rightarrow> pyval \<Rightarrow> error + pyval"
  str_to_int :: "string \<Rightarrow> int option"
  invalidate_cache_on_mylist_modify :: bool
  CACHE_METADATA_TTL :: ttl
  default_ttl :: "bucket \<Rightarrow> ttl"
  VIDEO_LIST_PARTIAL_PATHS :: "pyval list list"
  SEASONS_PARTIAL_PATHS :: "pyval list list"
  EPISODES_PARTIAL_PATHS :: "pyval list list"
  ART_PARTIAL_PATHS :: "pyval list list"

type_synonym 'a result = "(error + 'a) \<times> state"

text \<open>\<^verbatim>\<open>common.make_call(func, data)\<close>: one remote call, which returns a value or fails.\<close>

definition make_call :: "env \<Rightarrow> session_method \<Rightarrow> pyval list \<Rightarrow> state \<Rightarrow> pyval result" where
  "make_call e m args s =
     (let s' = s\<lparr>trace := trace s @ [Call m args]\<rparr>
      in case remote e (length (trace s)) m args of
           None \<Rightarrow> (Inl CallError, s')
         | Some r \<Rightarrow> (Inr r, s'))"

text \<open>The built-in \<^verbatim>\<open>int(x)\<close>; a float is truncated towards zero.\<close>

definition int_builtin :: "env \<Rightarrow> pyval \<Rightarrow> error + int" where
  "int_builtin e v =
     (case v of
        PyInt n \<Rightarrow> Inr n
      | PyBool b \<Rightarrow> Inr (if b then 1 else 0)
      | PyFloat q \<Rightarrow> Inr (if 0 \<le> q then \<lfloor>q\<rfloor> else \<lceil>q\<rceil>)
      | PyStr s \<Rightarrow> (case str_to_int e s of None \<Rightarrow> Inl ValueError | Some n \<Rightarrow> Inr n)
      | _ \<Rightarrow> Inl TypeError)"

section \<open>The cache module\<close>

text \<open>
  \<^verbatim>\<open>resources/lib/cache.py\<close> is imported by the module but is not among the sources
  at hand. Its operations are modelled from the specification: sections 3 and 4 of the
  design (key builder, cache engine, expiry policy, invalidation protocol, call
  interceptor). Storage failures of the disk tier are not modelled.
\<close>

text \<open>
  Modelled from the spec: the registration of a producer with
  \<^verbatim>\<open>cache.cache_output\<close>, missing with the cache module. Its fields are the arguments
  of the decorator as the module passes them: the bucket, the position and the name of
  the designated argument, a fixed identifier, an expiry and the disk flag; an argument
  that is not passed has the default of the interceptor's signature in section 4.5
  (none, none, none, none, false).
\<close>

record registration =
  bucket :: bucket
  identifying_param_index :: "nat option"
  identifying_param_name :: "string option"
  fixed_identifier :: "pyval option"
  ttl_override :: "ttl option"
  to_disk :: bool

text \<open>
  Modelled from the spec: the freshness check of the cache engine, missing with the
  cache module: an entry is fresh while \<open>now - created_at < ttl\<close>, equality counts as
  expired, and an entry without expiry is always fresh.
\<close>

definition fresh :: "int \<Rightarrow> entry \<Rightarrow> bool" where
  "fresh t en = (case entry_ttl en of NoExpiry \<Rightarrow> True | Seconds d \<Rightarrow> t - created_at en < d)"

definition lookup_fresh :: "(key \<rightharpoonup> entry) \<Rightarrow> key \<Rightarrow> int \<Rightarrow> entry option" where
  "lookup_fresh tier k t =
     (case tier k of
        None \<Rightarrow> None
      | Some en \<Rightarrow> if fresh t en then Some en else None)"

text \<open>
  Modelled from the spec: the key builder, missing with the cache module. With a fixed
  identifier the key is (bucket, fixed identifier); otherwise it is the bucket with the
  value of the designated argument. The entries are addressed by (bucket, identifier),
  as in the scenario of section 8, where the call with identifier \<open>abc123\<close> is held
  under the key (video_list, abc123), and as the module itself addresses them when it
  calls \<^verbatim>\<open>invalidate_entry\<close>. When no designated argument can be selected there is no
  key.
\<close>

definition designated_argument :: "registration \<Rightarrow> pyval list \<Rightarrow> pyval option" where
  "designated_argument r args =
     (case identifying_param_index r of
        None \<Rightarrow> None
      | Some i \<Rightarrow> if i < length args then Some (args ! i) else None)"

definition build_key :: "registration \<Rightarrow> pyval list \<Rightarrow> key option" where
  "build_key r args =
     (case fixed_identifier r of
        Some ident \<Rightarrow> Some (bucket r, ident)
      | None \<Rightarrow>
          (case designated_argument r args of
             None \<Rightarrow> None
           | Some ident \<Rightarrow> Some (bucket r, ident)))"

text \<open>
  Modelled from the spec: the expiry policy, missing with the cache module: the expiry
  of an entry is the explicit one of the call, or else the default of its bucket.
\<close>

definition expiry_of :: "env \<Rightarrow> bucket \<Rightarrow> ttl option \<Rightarrow> ttl" where
  "expiry_of e b ttl_ov = (case ttl_ov of Some t \<Rightarrow> t | None \<Rightarrow> default_ttl e b)"

text \<open>
  Modelled from the spec: \<^verbatim>\<open>get_or_compute\<close> of the cache engine, missing with the
  cache module. A fresh entry of the memory tier is returned; else, when the disk tier
  is allowed, a fresh entry of the disk tier is promoted into memory and returned; else
  the producer is called: its failure is propagated and nothing is written, its value
  is written to memory, and to disk when allowed, with \<open>created_at = now\<close> and the
  expiry of the call or else of the bucket.
\<close>

definition get_or_compute ::
  "env \<Rightarrow> key \<Rightarrow> (state \<Rightarrow> pyval result) \<Rightarrow> ttl option \<Rightarrow> bool \<Rightarrow> state \<Rightarrow> pyval result" where
  "get_or_compute e k producer ttl_ov allow_disk s =
     (case lookup_fresh (mem s) k (now s) of
        Some en \<Rightarrow> (Inr (payload en), s)
      | None \<Rightarrow>
          (case (if allow_disk then lookup_fresh (disk s) k (now s) else None) of
             Some en \<Rightarrow> (Inr (payload en), s\<lparr>mem := (mem s)(k \<mapsto> en)\<rparr>)
           | None \<Rightarrow>
               (case producer s of
                  (Inl err, s') \<Rightarrow> (Inl err, s')
                | (Inr v, s') \<Rightarrow>
                    (let en = \<lparr>payload = v, created_at = now s',
                               entry_ttl = expiry_of e (fst k) ttl_ov\<rparr>
                     in (Inr v,
                         s'\<lparr>mem := (mem s')(k \<mapsto> en),
                            disk := (if allow_disk then (disk s')(k \<mapsto> en)
                                     else disk s')\<rparr>)))))"

text \<open>
  Modelled from the spec: the call interceptor \<^verbatim>\<open>cache.cache_output\<close>, missing with
  the cache module. It builds the key of the call and delegates to the engine. A call
  for which no key can be built goes to the producer, so that the wrapper keeps the
  producer's contract; no operation of the module is ever called that way.
\<close>

definition cache_output ::
  "env \<Rightarrow> registration \<Rightarrow> pyval list \<Rightarrow> (state \<Rightarrow> pyval result) \<Rightarrow> state \<Rightarrow> pyval result" where
  "cache_output e r args producer s =
     (case build_key r args of
        None \<Rightarrow> producer s
      | Some k \<Rightarrow> get_or_compute e k producer (ttl_override r) (to_disk r) s)"

text \<open>
  Modelled from the spec: the invalidation operations, missing with the cache module.
  \<^verbatim>\<open>invalidate_cache\<close> clears every entry of every bucket and tier;
  \<^verbatim>\<open>invalidate_entry\<close> removes one entry from all tiers and is idempotent;
  \<^verbatim>\<open>invalidate_last_location\<close> clears only the last-location marker.
\<close>

definition invalidate_cache :: "state \<Rightarrow> state" where
  "invalidate_cache s =
     s\<lparr>mem := Map.empty, disk := Map.empty, trace := trace s @ [Invalidate_cache]\<rparr>"

definition invalidate_entry :: "bucket \<Rightarrow> pyval \<Rightarrow> state \<Rightarrow> state" where
  "invalidate_entry b ident s =
     s\<lparr>mem := (mem s)((b, ident) := None),
       disk := (disk s)((b, ident) := None),
       trace := trace s @ [Invalidate_entry b ident]\<rparr>"

definition invalidate_last_location :: "state \<Rightarrow> state" where
  "invalidate_last_location s =
     s\<lparr>last_location := None, trace := trace s @ [Invalidate_last_location]\<rparr>"

section \<open>The module: access to the Shakti API\<close>

text \<open>
  The functions below follow \<^verbatim>\<open>resources/lib/api/shakti.py\<close> in its order. Every
  function takes the environment and the state and returns its value, or the exception
  it raises, with the new state. A function without a return statement returns
  \<open>PyNone\<close>. The calls of \<^verbatim>\<open>common.debug\<close> only write to the log and are left out.
\<close>

definition request_headers :: pyval where
  "request_headers =
     PyDict [(''Content-Type'', PyStr ''application/json''),
             (''Accept'', PyStr ''application/json, text/javascript, */*'')]"

definition from_to :: pyval where
  "from_to = PyDict [(''from'', PyInt 0), (''to'', PyInt 40)]"

definition build_paths :: "pyval list \<Rightarrow> pyval list list \<Rightarrow> pyval list list" where
  "build_paths base_path partial_paths = map (\<lambda>partial_path. base_path @ partial_path) partial_paths"

definition paths_arg :: "pyval list list \<Rightarrow> pyval" where
  "paths_arg paths = PyList (map PyList paths)"

definition activate_profile :: "env \<Rightarrow> pyval \<Rightarrow> state \<Rightarrow> pyval result" where
  "activate_profile e profile_id s =
     (case make_call e NetflixSession_activate_profile [profile_id] (invalidate_cache s) of
        (Inl err, s') \<Rightarrow> (Inl err, s')
      | (Inr _, s') \<Rightarrow> (Inr PyNone, s'))"

definition logout :: "env \<Rightarrow> state \<Rightarrow> pyval result" where
  "logout e s =
     (case make_call e NetflixSession_logout [] (invalidate_cache s) of
        (Inl err, s') \<Rightarrow> (Inl err, s')
      | (Inr _, s') \<Rightarrow> (Inr PyNone, s'))"

definition login :: "env \<Rightarrow> state \<Rightarrow> pyval result" where
  "login e s =
     (case make_call e NetflixSession_login [] (invalidate_cache s) of
        (Inl err, s') \<Rightarrow> (Inl err, s')
      | (Inr _, s') \<Rightarrow> (Inr PyNone, s'))"

definition profiles :: "env \<Rightarrow> state \<Rightarrow> pyval result" where
  "profiles e s = make_call e NetflixSession_list_profiles [] s"

subsection \<open>The cached producers\<close>

definition reg_root_lists :: registration where
  "reg_root_lists =
     \<lparr>bucket = CACHE_COMMON, identifying_param_index = None, identifying_param_name = None,
      fixed_identifier = Some (PyStr ''root_lists''), ttl_override = None, to_disk = False\<rparr>"

definition reg_list_id_for_type :: registration where
  "reg_list_id_for_type =
     \<lparr>bucket = CACHE_COMMON, identifying_param_index = Some 0,
      identifying_param_name = Some ''list_type'',
      fixed_identifier = None, ttl_override = None, to_disk = False\<rparr>"

definition reg_video_list :: registration where
  "reg_video_list =
     \<lparr>bucket = CACHE_VIDEO_LIST, identifying_param_index = Some 0,
      identifying_param_name = Some ''list_id'',
      fixed_identifier = None, ttl_override = None, to_disk = False\<rparr>"

definition reg_seasons :: registration where
  "reg_seasons =
     \<lparr>bucket = CACHE_SEASONS, identifying_param_index = Some 0,
      identifying_param_name = Some ''tvshow_id'',
      fixed_identifier = None, ttl_override = None, to_disk = False\<rparr>"

definition reg_episodes :: registration where
  "reg_episodes =
     \<lparr>bucket = CACHE_EPISODES, identifying_param_index = Some 1,
      identifying_param_name = Some ''season_id'',
      fixed_identifier = None, ttl_override = None, to_disk = False\<rparr>"

definition reg_episode :: registration where
  "reg_episode =
     \<lparr>bucket = CACHE_EPISODES, identifying_param_index = Some 1,
      identifying_param_name = Some ''episode_id'',
      fixed_identifier = None, ttl_override = None, to_disk = False\<rparr>"

definition reg_movie :: registration where
  "reg_movie =
     \<lparr>bucket = CACHE_EPISODES, identifying_param_index = Some 0,
      identifying_param_name = Some ''movie_id'',
      fixed_identifier = None, ttl_override = None, to_disk = False\<rparr>"

definition reg_metadata :: "env \<Rightarrow> registration" where
  "reg_metadata e =
     \<lparr>bucket = CACHE_METADATA, identifying_param_index = Some 0,
      identifying_param_name = Some ''video_id'',
      fixed_identifier = None, ttl_override = Some (CACHE_METADATA_TTL e), to_disk = True\<rparr>"

text \<open>The cached operations of the module, in the order of the file.\<close>

definition cached_operations :: "env \<Rightarrow> (string \<times> registration) list" where
  "cached_operations e =
     [(''root_lists'', reg_root_lists),
      (''list_id_for_type'', reg_list_id_for_type),
      (''video_list'', reg_video_list),
      (''seasons'', reg_seasons),
      (''episodes'', reg_episodes),
      (''episode'', reg_episode),
      (''movie'', reg_movie),
      (''metadata'', reg_metadata e)]"

definition root_lists_request :: "pyval list" where
  "root_lists_request =
     [PyList [PyList [PyStr ''lolomo'', from_to,
                      PyList [PyStr ''displayName'', PyStr ''context'', PyStr ''id'',
                              PyStr ''index'', PyStr ''length'']]]]"

definition root_lists_body :: "env \<Rightarrow> state \<Rightarrow> pyval result" where
  "root_lists_body e s =
     (case make_call e NetflixSession_path_request root_lists_request s of
        (Inl err, s') \<Rightarrow> (Inl err, s')
      | (Inr r, s') \<Rightarrow> (Inr (LoLoMo r), s'))"

definition root_lists :: "env \<Rightarrow> state \<Rightarrow> pyval result" where
  "root_lists e s = cache_output e reg_root_lists [] (root_lists_body e) s"

text \<open>
  \<^verbatim>\<open>next(root_lists().lists_by_context(list_type))[0]\<close>: the method exists on a
  \<^verbatim>\<open>LoLoMo\<close> object only; \<^verbatim>\<open>next\<close> raises StopIteration when nothing is yielded, which
  the function turns into its own error.
\<close>

definition list_id_for_type_body :: "env \<Rightarrow> pyval \<Rightarrow> state \<Rightarrow> pyval result" where
  "list_id_for_type_body e list_type s =
     (case root_lists e s of
        (Inl err, s') \<Rightarrow> (Inl err, s')
      | (Inr (LoLoMo d), s') \<Rightarrow>
          (case lists_by_context e d list_type of
             [] \<Rightarrow> (Inl InvalidVideoListTypeError, s')
           | x # _ \<Rightarrow> (Inr (fst x), s'))
      | (Inr _, s') \<Rightarrow> (Inl AttributeError, s'))"

definition list_id_for_type :: "env \<Rightarrow> pyval \<Rightarrow> state \<Rightarrow> pyval result" where
  "list_id_for_type e list_type s =
     cache_output e reg_list_id_for_type [list_type] (list_id_for_type_body e list_type) s"

definition video_list_body :: "env \<Rightarrow> pyval \<Rightarrow> state \<Rightarrow> pyval result" where
  "video_list_body e list_id s =
     (case make_call e NetflixSession_path_request
             [paths_arg (build_paths [PyStr ''lists'', PyList [list_id], from_to, PyStr ''reference'']
                                     (VIDEO_LIST_PARTIAL_PATHS e))] s of
        (Inl err, s') \<Rightarrow> (Inl err, s')
      | (Inr r, s') \<Rightarrow> (Inr (VideoList r), s'))"

definition video_list :: "env \<Rightarrow> pyval \<Rightarrow> state \<Rightarrow> pyval result" where
  "video_list e list_id s = cache_output e reg_video_list [list_id] (video_list_body e list_id) s"

definition seasons_body :: "env \<Rightarrow> pyval \<Rightarrow> state \<Rightarrow> pyval result" where
  "seasons_body e tvshow_id s =
     (case make_call e NetflixSession_path_request
             [paths_arg (build_paths [PyStr ''videos'', tvshow_id] (SEASONS_PARTIAL_PATHS e))] s of
        (Inl err, s') \<Rightarrow> (Inl err, s')
      | (Inr r, s') \<Rightarrow> (Inr (SeasonList tvshow_id r), s'))"

definition seasons :: "env \<Rightarrow> pyval \<Rightarrow> state \<Rightarrow> pyval result" where
  "seasons e tvshow_id s = cache_output e reg_seasons [tvshow_id] (seasons_body e tvshow_id) s"

definition episodes_body :: "env \<Rightarrow> pyval \<Rightarrow> pyval \<Rightarrow> state \<Rightarrow> pyval result" where
  "episodes_body e tvshow_id season_id s =
     (case make_call e NetflixSession_path_request
             [paths_arg (build_paths [PyStr ''seasons'', season_id, PyStr ''episodes'', from_to]
                                     (EPISODES_PARTIAL_PATHS e) @
                         build_paths [PyStr ''videos'', tvshow_id]
                                     (ART_PARTIAL_PATHS e @ [[PyStr ''title'']]))] s of
        (Inl err, s') \<Rightarrow> (Inl err, s')
      | (Inr r, s') \<Rightarrow> (Inr (EpisodeList tvshow_id season_id r), s'))"

definition episodes :: "env \<Rightarrow> pyval \<Rightarrow> pyval \<Rightarrow> state \<Rightarrow> pyval result" where
  "episodes e tvshow_id season_id s =
     cache_output e reg_episodes [tvshow_id, season_id] (episodes_body e tvshow_id season_id) s"

definition episode_body :: "env \<Rightarrow> pyval \<Rightarrow> pyval \<Rightarrow> state \<Rightarrow> pyval result" where
  "episode_body e tvshow_id episode_id s =
     make_call e NetflixSession_path_request
       [paths_arg (build_paths [PyStr ''videos'', episode_id] (EPISODES_PARTIAL_PATHS e) @
                   build_paths [PyStr ''videos'', tvshow_id]
                               (ART_PARTIAL_PATHS e @ [[PyStr ''title'']]))] s"

definition episode :: "env \<Rightarrow> pyval \<Rightarrow> pyval \<Rightarrow> state \<Rightarrow> pyval result" where
  "episode e tvshow_id episode_id s =
     cache_output e reg_episode [tvshow_id, episode_id] (episode_body e tvshow_id episode_id) s"

definition movie_body :: "env \<Rightarrow> pyval \<Rightarrow> state \<Rightarrow> pyval result" where
  "movie_body e movie_id s =
     make_call e NetflixSession_path_request
       [paths_arg (build_paths [PyStr ''videos'', movie_id] (EPISODES_PARTIAL_PATHS e))] s"

definition movie :: "env \<Rightarrow> pyval \<Rightarrow> state \<Rightarrow> pyval result" where
  "movie e movie_id s = cache_output e reg_movie [movie_id] (movie_body e movie_id) s"

subsection \<open>Rating and my list\<close>

text \<open>
  \<^verbatim>\<open>min(10, max(0, rating)) / 2\<close>. \<^verbatim>\<open>min\<close> and \<^verbatim>\<open>max\<close> compare their
  arguments and return one of them: the comparison is defined between numbers (a bool
  counts as 0 or 1) and raises TypeError for any other value. \<^verbatim>\<open>/\<close> is true
  division: its result is a float also when both operands are integers, so halves are
  kept, as the comment of the source says of the steps of 0.5.
\<close>

definition number_value :: "pyval \<Rightarrow> rat option" where
  "number_value v =
     (case v of
        PyInt n \<Rightarrow> Some (of_int n)
      | PyFloat q \<Rightarrow> Some q
      | PyBool b \<Rightarrow> Some (if b then 1 else 0)
      | _ \<Rightarrow> None)"

definition netflix_rating :: "pyval \<Rightarrow> error + pyval" where
  "netflix_rating rating =
     (case number_value rating of
        None \<Rightarrow> Inl TypeError
      | Some q \<Rightarrow> Inr (PyFloat (min 10 (max 0 q) / 2)))"

definition rate_request :: "pyval \<Rightarrow> pyval \<Rightarrow> pyval list" where
  "rate_request video_id rating =
     [PyDict [(''component'', PyStr ''set_video_rating''),
              (''headers'', request_headers),
              (''params'', PyDict [(''titleid'', video_id), (''rating'', rating)])]]"

definition rate :: "env \<Rightarrow> pyval \<Rightarrow> pyval \<Rightarrow> state \<Rightarrow> pyval result" where
  "rate e video_id rating s =
     (case netflix_rating rating of
        Inl err \<Rightarrow> (Inl err, s)
      | Inr rating' \<Rightarrow>
          (case make_call e NetflixSession_post (rate_request video_id rating') s of
             (Inl err, s') \<Rightarrow> (Inl err, s')
           | (Inr _, s') \<Rightarrow> (Inr PyNone, s')))"

definition update_my_list_request :: "pyval \<Rightarrow> int \<Rightarrow> pyval list" where
  "update_my_list_request operation video_id =
     [PyDict [(''component'', PyStr ''update_my_list''),
              (''headers'', request_headers),
              (''data'', PyDict [(''operation'', operation), (''videoId'', PyInt video_id)])]]"

definition update_my_list :: "env \<Rightarrow> pyval \<Rightarrow> pyval \<Rightarrow> state \<Rightarrow> pyval result" where
  "update_my_list e video_id operation s =
     (case int_builtin e video_id of
        Inl err \<Rightarrow> (Inl err, s)
      | Inr n \<Rightarrow>
          (case make_call e NetflixSession_post (update_my_list_request operation n) s of
             (Inl err, s1) \<Rightarrow> (Inl err, s1)
           | (Inr _, s1) \<Rightarrow>
               if invalidate_cache_on_mylist_modify e then (Inr PyNone, invalidate_cache s1)
               else
                 (case list_id_for_type e (PyStr ''queue'') (invalidate_last_location s1) of
                    (Inl err, s2) \<Rightarrow> (Inl err, s2)
                  | (Inr list_id, s2) \<Rightarrow>
                      (Inr PyNone,
                       invalidate_entry CACHE_COMMON (PyStr ''root_lists'')
                         (invalidate_entry CACHE_COMMON (PyStr ''queue'')
                            (invalidate_entry CACHE_VIDEO_LIST list_id s2))))))"

definition add_to_list :: "env \<Rightarrow> pyval \<Rightarrow> state \<Rightarrow> pyval result" where
  "add_to_list e video_id s = update_my_list e video_id (PyStr ''add'') s"

definition remove_from_list :: "env \<Rightarrow> pyval \<Rightarrow> state \<Rightarrow> pyval result" where
  "remove_from_list e video_id s = update_my_list e video_id (PyStr ''remove'') s"

definition browse_genre :: "env \<Rightarrow> pyval \<Rightarrow> state \<Rightarrow> pyval result" where
  "browse_genre e genre_id s = (Inr PyNone, s)"

subsection \<open>Metadata\<close>

definition metadata_request :: "pyval \<Rightarrow> pyval list" where
  "metadata_request video_id =
     [PyDict [(''component'', PyStr ''metadata''),
              (''req_type'', PyStr ''api''),
              (''params'', PyDict [(''movieid'', video_id)])]]"

definition metadata_body :: "env \<Rightarrow> pyval \<Rightarrow> state \<Rightarrow> pyval result" where
  "metadata_body e video_id s =
     (case make_call e NetflixSession_get (metadata_request video_id) s of
        (Inl err, s') \<Rightarrow> (Inl err, s')
      | (Inr r, s') \<Rightarrow> (py_getitem r ''video'', s'))"

definition metadata :: "env \<Rightarrow> pyval \<Rightarrow> state \<Rightarrow> pyval result" where
  "metadata e video_id s = cache_output e (reg_metadata e) [video_id] (metadata_body e video_id) s"

text \<open>The body of the \<^verbatim>\<open>try\<close> block of \<^verbatim>\<open>episode_metadata\<close>.\<close>

definition episode_metadata_try :: "env \<Rightarrow> pyval \<Rightarrow> pyval \<Rightarrow> state \<Rightarrow> pyval result" where
  "episode_metadata_try e tvshowid episodeid s =
     (case metadata e tvshowid s of
        (Inl err, s1) \<Rightarrow> (Inl err, s1)
      | (Inr md, s1) \<Rightarrow>
          (case py_getitem md ''seasons'' of
             Inl err \<Rightarrow> (Inl err, s1)
           | Inr all_seasons \<Rightarrow> (find_episode e episodeid all_seasons, s1)))"

text \<open>
  The chain of \<^verbatim>\<open>get\<close> calls of the handler:
  \<^verbatim>\<open>md.get('seasons', {}).get(seasonid, {}).get('episodes', {}).get(episodeid, {})\<close>.
\<close>

definition episode_or_empty :: "pyval \<Rightarrow> pyval \<Rightarrow> pyval \<Rightarrow> error + pyval" where
  "episode_or_empty md seasonid episodeid =
     (case py_get md (PyStr ''seasons'') (PyDict []) of
        Inl err \<Rightarrow> Inl err
      | Inr all_seasons \<Rightarrow>
          (case py_get all_seasons seasonid (PyDict []) of
             Inl err \<Rightarrow> Inl err
           | Inr season \<Rightarrow>
               (case py_get season (PyStr ''episodes'') (PyDict []) of
                  Inl err \<Rightarrow> Inl err
                | Inr eps \<Rightarrow> py_get eps episodeid (PyDict []))))"

text \<open>The body of the \<^verbatim>\<open>except KeyError\<close> block of \<^verbatim>\<open>episode_metadata\<close>.\<close>

definition episode_metadata_recover :: "env \<Rightarrow> pyval \<Rightarrow> pyval \<Rightarrow> pyval \<Rightarrow> state \<Rightarrow> pyval result" where
  "episode_metadata_recover e tvshowid seasonid episodeid s =
     (case metadata e tvshowid (invalidate_entry CACHE_METADATA tvshowid s) of
        (Inl err, s') \<Rightarrow> (Inl err, s')
      | (Inr md, s') \<Rightarrow> (episode_or_empty md seasonid episodeid, s'))"

definition episode_metadata :: "env \<Rightarrow> pyval \<Rightarrow> pyval \<Rightarrow> pyval \<Rightarrow> state \<Rightarrow> pyval result" where
  "episode_metadata e tvshowid seasonid episodeid s =
     (case episode_metadata_try e tvshowid episodeid s of
        (Inl KeyError, s1) \<Rightarrow> episode_metadata_recover e tvshowid seasonid episodeid s1
      | r \<Rightarrow> r)"

section \<open>The episode an aggregate holds\<close>

text \<open>
  A second reading of the lookup, written from the words "the found episode metadata
  or an empty result": \<open>found_episode\<close> is the value under
  \<^verbatim>\<open>md['seasons'][seasonid]['episodes'][episodeid]\<close> when every level is a
  dictionary that has the key, and nothing otherwise. It is compared with
  \<open>episode_or_empty\<close>, the chain the handler evaluates.
\<close>

definition dict_lookup :: "pyval \<Rightarrow> pyval \<Rightarrow> pyval option" where
  "dict_lookup d k = (case d of PyDict kvs \<Rightarrow> (case k of PyStr s \<Rightarrow> map_of kvs s | _ \<Rightarrow> None) | _ \<Rightarrow> None)"

definition found_episode :: "pyval \<Rightarrow> pyval \<Rightarrow> pyval \<Rightarrow> pyval option" where
  "found_episode md seasonid episodeid =
     (case dict_lookup md (PyStr ''seasons'') of
        None \<Rightarrow> None
      | Some all_seasons \<Rightarrow>
          (case dict_lookup all_seasons seasonid of
             None \<Rightarrow> None
           | Some season \<Rightarrow>
               (case dict_lookup season (PyStr ''episodes'') of
                  None \<Rightarrow> None
                | Some eps \<Rightarrow> dict_lookup eps episodeid)))"

section \<open>An example service, cache and run\<close>

text \<open>
  One concrete environment, used to run the operations: a \<^verbatim>\<open>lists_by_context\<close> that
  reads the lists out of a list of dictionaries with the fields \<open>id\<close> and \<open>context\<close>,
  a \<^verbatim>\<open>find_episode\<close> that searches the episodes of every season and raises KeyError
  when the episode is in none, the one video id the runs convert with \<^verbatim>\<open>int\<close>, an
  expiry of 600 for every bucket and of thirty days for metadata.
\<close>

definition example_lists_by_context :: "pyval \<Rightarrow> pyval \<Rightarrow> (pyval \<times> pyval) list" where
  "example_lists_by_context d context =
     (case d of
        PyList xs \<Rightarrow>
          concat (map (\<lambda>x. case py_getitem x ''context'' of
                              Inl _ \<Rightarrow> []
                            | Inr c \<Rightarrow>
                                if c = context
                                then (case py_getitem x ''id'' of Inl _ \<Rightarrow> [] | Inr i \<Rightarrow> [(i, x)])
                                else []) xs)
      | _ \<Rightarrow> [])"

fun find_in_seasons :: "string \<Rightarrow> (string \<times> pyval) list \<Rightarrow> pyval option" where
  "find_in_seasons eid [] = None"
| "find_in_seasons eid (season # rest) =
     (case dict_lookup (snd season) (PyStr ''episodes'') of
        None \<Rightarrow> find_in_seasons eid rest
      | Some eps \<Rightarrow>
          (case dict_lookup eps (PyStr eid) of
             None \<Rightarrow> find_in_seasons eid rest
           | Some ep \<Rightarrow> Some ep))"

definition example_find_episode :: "pyval \<Rightarrow> pyval \<Rightarrow> error + pyval" where
  "example_find_episode episodeid all_seasons =
     (case all_seasons of
        PyDict ss \<Rightarrow>
          (case episodeid of
             PyStr eid \<Rightarrow> (case find_in_seasons eid ss of None \<Rightarrow> Inl KeyError | Some ep \<Rightarrow> Inr ep)
           | _ \<Rightarrow> Inl KeyError)
      | _ \<Rightarrow> Inl KeyError)"

definition example_env ::
  "bool \<Rightarrow> (nat \<Rightarrow> session_method \<Rightarrow> pyval list \<Rightarrow> pyval option) \<Rightarrow> env" where
  "example_env flag service =
     \<lparr>remote = service,
      lists_by_context = example_lists_by_context,
      find_episode = example_find_episode,
      str_to_int = map_of [(''80057281'', 80057281)],
      invalidate_cache_on_mylist_modify = flag,
      CACHE_METADATA_TTL = Seconds 2592000,
      default_ttl = (\<lambda>b. Seconds 600),
      VIDEO_LIST_PARTIAL_PATHS = [[PyStr ''summary'']],
      SEASONS_PARTIAL_PATHS = [[PyStr ''seasonList'']],
      EPISODES_PARTIAL_PATHS = [[PyStr ''summary'']],
      ART_PARTIAL_PATHS = [[PyStr ''boxarts'']]\<rparr>"

definition example_lolomo :: pyval where
  "example_lolomo =
     PyList [PyDict [(''id'', PyStr ''list-1''), (''context'', PyStr ''queue'')],
             PyDict [(''id'', PyStr ''list-2''), (''context'', PyStr ''continueWatching'')]]"

definition example_lolomo_without_queue :: pyval where
  "example_lolomo_without_queue =
     PyList [PyDict [(''id'', PyStr ''list-2''), (''context'', PyStr ''continueWatching'')]]"

definition example_entry :: "pyval \<Rightarrow> entry" where
  "example_entry v = \<lparr>payload = v, created_at = 0, entry_ttl = Seconds 600\<rparr>"

definition example_old_metadata :: pyval where
  "example_old_metadata =
     PyDict [(''title'', PyStr ''A show''),
             (''seasons'', PyDict [(''s1'', PyDict [(''episodes'',
                  PyDict [(''e1'', PyDict [(''title'', PyStr ''Pilot'')])])])])]"

definition example_new_metadata :: pyval where
  "example_new_metadata =
     PyDict [(''title'', PyStr ''A show''),
             (''seasons'', PyDict [(''s1'', PyDict [(''episodes'',
                  PyDict [(''e1'', PyDict [(''title'', PyStr ''Pilot'')]),
                          (''e2'', PyDict [(''title'', PyStr ''Second'')])])])])]"

text \<open>
  A cache at time 100 that holds four fresh entries written at time 0: the root lists,
  the id of the \<open>queue\<close> list, that video list, and the metadata of a show whose
  second episode is not in the aggregate yet. \<open>example_expired_state\<close> is the same cache
  at time 700, when all four entries have expired.
\<close>

definition example_state :: state where
  "example_state =
     \<lparr>mem = [(CACHE_COMMON, PyStr ''root_lists'') \<mapsto> example_entry (LoLoMo example_lolomo),
             (CACHE_COMMON, PyStr ''queue'') \<mapsto> example_entry (PyStr ''list-1''),
             (CACHE_VIDEO_LIST, PyStr ''list-1'') \<mapsto> example_entry (VideoList (PyDict [])),
             (CACHE_METADATA, PyStr ''70143836'') \<mapsto> example_entry example_old_metadata],
      disk = Map.empty,
      last_location = Some (PyStr ''list-1''),
      now = 100,
      trace = []\<rparr>"

definition example_expired_state :: state where
  "example_expired_state = example_state\<lparr>now := 700\<rparr>"

definition empty_state :: state where
  "empty_state = \<lparr>mem = Map.empty, disk = Map.empty, last_location = None, now = 0, trace = []\<rparr>"

text \<open>
  Four services: one that answers every call (its root lists have no \<open>queue\<close>
  list), one that fails every call, one that answers every call with an empty
  dictionary, and one whose root lists have the \<open>queue\<close> list at the first event
  only.
\<close>

definition service_up :: "nat \<Rightarrow> session_method \<Rightarrow> pyval list \<Rightarrow> pyval option" where
  "service_up n m args =
     (if m = NetflixSession_path_request then Some example_lolomo_without_queue
      else if m = NetflixSession_get then Some (PyDict [(''video'', example_new_metadata)])
      else Some PyNone)"

definition service_down :: "nat \<Rightarrow> session_method \<Rightarrow> pyval list \<Rightarrow> pyval option" where
  "service_down n m args = None"

definition service_without_video :: "nat \<Rightarrow> session_method \<Rightarrow> pyval list \<Rightarrow> pyval option" where
  "service_without_video n m args = Some (PyDict [])"

definition service_changing :: "nat \<Rightarrow> session_method \<Rightarrow> pyval list \<Rightarrow> pyval option" where
  "service_changing n m args =
     (if m = NetflixSession_path_request
      then (if n = 0 then Some example_lolomo else Some example_lolomo_without_queue)
      else Some PyNone)"

text \<open>
  A run from the empty cache against the changing service: the root lists are fetched
  at time 0, the id of the \<open>queue\<close> list is resolved at time 50, and the clock then
  stands at 620, when the root lists have expired and the resolved id has not.
\<close>

definition example_refetch_state_1 :: state where
  "example_refetch_state_1 = snd (root_lists (example_env False service_changing) empty_state)"

definition example_refetch_state_2 :: state where
  "example_refetch_state_2 =
     snd (list_id_for_type (example_env False service_changing) (PyStr ''queue'')
            (example_refetch_state_1\<lparr>now := 50\<rparr>))"

definition example_refetch_state_3 :: state where
  "example_refetch_state_3 = example_refetch_state_2\<lparr>now := 620\<rparr>"

section \<open>Effects of the cached lookups\<close>

lemmas ex_defs = example_env_def example_state_def empty_state_def service_up_def service_down_def
  service_changing_def service_without_video_def example_entry_def example_lolomo_def example_lolomo_without_queue_def
  example_lists_by_context_def example_find_episode_def example_old_metadata_def
  example_new_metadata_def

lemmas rf_defs = example_refetch_state_1_def example_refetch_state_2_def example_refetch_state_3_def

lemmas cache_defs = cache_output_def build_key_def designated_argument_def get_or_compute_def
  lookup_fresh_def fresh_def expiry_of_def invalidate_cache_def invalidate_entry_def
  invalidate_last_location_def make_call_def Let_def

lemmas op_defs = update_my_list_def add_to_list_def list_id_for_type_def list_id_for_type_body_def
  root_lists_def root_lists_body_def reg_root_lists_def reg_list_id_for_type_def int_builtin_def
  py_getitem_def

lemmas md_defs = episode_metadata_def episode_metadata_try_def episode_metadata_recover_def
  metadata_def metadata_body_def reg_metadata_def episode_or_empty_def py_get_def py_getitem_def
  found_episode_def dict_lookup_def

text \<open>
  \<^verbatim>\<open>root_lists\<close> either answers from a fresh entry and changes nothing, or makes one
  remote call and, when the call succeeds, stores the answer under its key.
\<close>

lemma root_lists_cases:
  assumes "root_lists e s = (r, s')"
  shows "(\<exists>en. lookup_fresh (mem s) (CACHE_COMMON, PyStr ''root_lists'') (now s) = Some en
            \<and> r = Inr (payload en) \<and> s' = s)
       \<or> (lookup_fresh (mem s) (CACHE_COMMON, PyStr ''root_lists'') (now s) = None
            \<and> remote e (length (trace s)) NetflixSession_path_request root_lists_request = None
            \<and> r = Inl CallError
            \<and> s' = s\<lparr>trace := trace s @ [Call NetflixSession_path_request root_lists_request]\<rparr>)
       \<or> (\<exists>v. lookup_fresh (mem s) (CACHE_COMMON, PyStr ''root_lists'') (now s) = None
            \<and> remote e (length (trace s)) NetflixSession_path_request root_lists_request = Some v
            \<and> r = Inr (LoLoMo v)
            \<and> s' = s\<lparr>trace := trace s @ [Call NetflixSession_path_request root_lists_request],
                     mem := (mem s)((CACHE_COMMON, PyStr ''root_lists'') \<mapsto>
                        \<lparr>payload = LoLoMo v, created_at = now s,
                         entry_ttl = default_ttl e CACHE_COMMON\<rparr>)\<rparr>)"
  using assms
  by (auto simp: root_lists_def cache_output_def build_key_def reg_root_lists_def
        get_or_compute_def root_lists_body_def make_call_def Let_def expiry_of_def
        split: option.splits)

lemma root_lists_frame:
  assumes "root_lists e s = (r, s')"
  shows "disk s' = disk s \<and> last_location s' = last_location s \<and> now s' = now s
       \<and> (\<forall>k. k \<noteq> (CACHE_COMMON, PyStr ''root_lists'') \<longrightarrow> mem s' k = mem s k)
       \<and> (trace s' = trace s \<or> trace s' = trace s @ [Call NetflixSession_path_request root_lists_request])
       \<and> ((\<exists>v. r = Inr v) \<longrightarrow> mem s' (CACHE_COMMON, PyStr ''root_lists'') \<noteq> None)"
  using root_lists_cases[OF assms]
  by (auto simp: lookup_fresh_def split: option.splits if_splits)

lemma list_id_key: "build_key reg_list_id_for_type [lt] = Some (CACHE_COMMON, lt)"
  by (simp add: build_key_def reg_list_id_for_type_def designated_argument_def)

lemma list_id_for_type_unfold:
  "list_id_for_type e lt s =
     (case lookup_fresh (mem s) (CACHE_COMMON, lt) (now s) of
        Some en \<Rightarrow> (Inr (payload en), s)
      | None \<Rightarrow>
          (case list_id_for_type_body e lt s of
             (Inl err, s') \<Rightarrow> (Inl err, s')
           | (Inr v, s') \<Rightarrow>
               (Inr v, s'\<lparr>mem := (mem s')((CACHE_COMMON, lt) \<mapsto>
                   \<lparr>payload = v, created_at = now s', entry_ttl = default_ttl e CACHE_COMMON\<rparr>)\<rparr>)))"
  unfolding list_id_for_type_def cache_output_def list_id_key
  by (simp add: get_or_compute_def reg_list_id_for_type_def expiry_of_def Let_def
        split: option.splits sum.splits prod.splits)

lemma list_id_for_type_body_frame:
  assumes "list_id_for_type_body e lt s = (r, s')"
  shows "disk s' = disk s \<and> last_location s' = last_location s \<and> now s' = now s
       \<and> (\<forall>k. k \<noteq> (CACHE_COMMON, PyStr ''root_lists'') \<longrightarrow> mem s' k = mem s k)
       \<and> (trace s' = trace s \<or> trace s' = trace s @ [Call NetflixSession_path_request root_lists_request])"
proof -
  obtain r0 s0 where rl: "root_lists e s = (r0, s0)" by (cases "root_lists e s")
  have "s' = s0" using assms rl
    by (auto simp: list_id_for_type_body_def split: sum.splits pyval.splits list.splits)
  with root_lists_frame[OF rl] show ?thesis by simp
qed

lemma list_id_for_type_frame:
  assumes "list_id_for_type e lt s = (r, s')"
  shows "disk s' = disk s \<and> last_location s' = last_location s \<and> now s' = now s
       \<and> (\<forall>k. k \<noteq> (CACHE_COMMON, PyStr ''root_lists'') \<and> k \<noteq> (CACHE_COMMON, lt)
              \<longrightarrow> mem s' k = mem s k)
       \<and> (trace s' = trace s \<or> trace s' = trace s @ [Call NetflixSession_path_request root_lists_request])"
proof (cases "lookup_fresh (mem s) (CACHE_COMMON, lt) (now s)")
  case (Some en)
  with assms show ?thesis by (simp add: list_id_for_type_unfold)
next
  case None
  obtain r0 s0 where b: "list_id_for_type_body e lt s = (r0, s0)"
    by (cases "list_id_for_type_body e lt s")
  from assms None b have "s' = s0 \<or> (\<exists>en. s' = s0\<lparr>mem := (mem s0)((CACHE_COMMON, lt) \<mapsto> en)\<rparr>)"
    by (auto simp: list_id_for_type_unfold split: sum.splits)
  with list_id_for_type_body_frame[OF b] show ?thesis by auto
qed

lemma list_id_for_type_raises:
  assumes "list_id_for_type e lt s = (Inl InvalidVideoListTypeError, s')"
  shows "lookup_fresh (mem s) (CACHE_COMMON, lt) (now s) = None
       \<and> (\<exists>d. root_lists e s = (Inr (LoLoMo d), s') \<and> lists_by_context e d lt = [])"
proof -
  have miss: "lookup_fresh (mem s) (CACHE_COMMON, lt) (now s) = None"
    using assms by (auto simp: list_id_for_type_unfold split: option.splits)
  then have b: "list_id_for_type_body e lt s = (Inl InvalidVideoListTypeError, s')"
    using assms by (auto simp: list_id_for_type_unfold split: sum.splits prod.splits)
  obtain r0 s0 where rl: "root_lists e s = (r0, s0)" by (cases "root_lists e s")
  have "r0 \<noteq> Inl InvalidVideoListTypeError"
    using root_lists_cases[OF rl] by auto
  with b rl have "\<exists>d. r0 = Inr (LoLoMo d) \<and> s0 = s' \<and> lists_by_context e d lt = []"
    by (auto simp: list_id_for_type_body_def split: sum.splits pyval.splits list.splits)
  with rl miss show ?thesis by auto
qed

lemma update_my_list_post_ok:
  assumes "int_builtin e video_id = Inr n"
    and "remote e (length (trace s)) NetflixSession_post (update_my_list_request operation n) = Some r"
  shows "update_my_list e video_id operation s =
     (if invalidate_cache_on_mylist_modify e
      then (Inr PyNone,
            invalidate_cache (s\<lparr>trace := trace s @ [Call NetflixSession_post (update_my_list_request operation n)]\<rparr>))
      else (case list_id_for_type e (PyStr ''queue'')
                   (invalidate_last_location
                      (s\<lparr>trace := trace s @ [Call NetflixSession_post (update_my_list_request operation n)]\<rparr>)) of
              (Inl err, s2) \<Rightarrow> (Inl err, s2)
            | (Inr list_id, s2) \<Rightarrow>
                (Inr PyNone,
                 invalidate_entry CACHE_COMMON (PyStr ''root_lists'')
                   (invalidate_entry CACHE_COMMON (PyStr ''queue'')
                      (invalidate_entry CACHE_VIDEO_LIST list_id s2)))))"
  using assms by (simp add: update_my_list_def make_call_def Let_def)

lemma py_get_Inr:
  "py_get d k dflt = Inr v \<Longrightarrow> v = (case dict_lookup d k of Some x \<Rightarrow> x | None \<Rightarrow> dflt)"
  by (auto simp: py_get_def dict_lookup_def split: pyval.splits option.splits)

lemma dict_lookup_empty: "dict_lookup (PyDict []) k = None"
  by (simp add: dict_lookup_def split: pyval.splits)

lemma episode_or_empty_Inr:
  assumes "episode_or_empty md seasonid episodeid = Inr v"
  shows "v = (case found_episode md seasonid episodeid of Some ep \<Rightarrow> ep | None \<Rightarrow> PyDict [])"
proof -
  from assms obtain a b c where
    a: "py_get md (PyStr ''seasons'') (PyDict []) = Inr a" and
    b: "py_get a seasonid (PyDict []) = Inr b" and
    c: "py_get b (PyStr ''episodes'') (PyDict []) = Inr c" and
    d: "py_get c episodeid (PyDict []) = Inr v"
    by (auto simp: episode_or_empty_def split: sum.splits)
  note A = py_get_Inr[OF a] and B = py_get_Inr[OF b] and C = py_get_Inr[OF c] and D = py_get_Inr[OF d]
  show ?thesis
    using A B C D
    by (auto simp: found_episode_def dict_lookup_empty split: option.splits)
qed

lemma metadata_after_invalidate:
  "metadata e vid (invalidate_entry CACHE_METADATA vid s) =
     (case remote e (Suc (length (trace s))) NetflixSession_get (metadata_request vid) of
        None \<Rightarrow> (Inl CallError,
                 s\<lparr>mem := (mem s)((CACHE_METADATA, vid) := None),
                   disk := (disk s)((CACHE_METADATA, vid) := None),
                   trace := trace s @ [Invalidate_entry CACHE_METADATA vid,
                                       Call NetflixSession_get (metadata_request vid)]\<rparr>)
      | Some r \<Rightarrow>
          (case py_getitem r ''video'' of
             Inl err \<Rightarrow> (Inl err,
                 s\<lparr>mem := (mem s)((CACHE_METADATA, vid) := None),
                   disk := (disk s)((CACHE_METADATA, vid) := None),
                   trace := trace s @ [Invalidate_entry CACHE_METADATA vid,
                                       Call NetflixSession_get (metadata_request vid)]\<rparr>)
           | Inr md \<Rightarrow> (Inr md,
                 s\<lparr>mem := (mem s)((CACHE_METADATA, vid) \<mapsto>
                            \<lparr>payload = md, created_at = now s, entry_ttl = CACHE_METADATA_TTL e\<rparr>),
                   disk := (disk s)((CACHE_METADATA, vid) \<mapsto>
                            \<lparr>payload = md, created_at = now s, entry_ttl = CACHE_METADATA_TTL e\<rparr>),
                   trace := trace s @ [Invalidate_entry CACHE_METADATA vid,
                                       Call NetflixSession_get (metadata_request vid)]\<rparr>)))"
  by (simp add: metadata_def cache_output_def build_key_def designated_argument_def reg_metadata_def
        get_or_compute_def lookup_fresh_def invalidate_entry_def metadata_body_def make_call_def
        expiry_of_def Let_def split: option.splits sum.splits)

text \<open>\<^verbatim>\<open>rate\<close> calls no invalidation operation: the cache and the marker are as before.\<close>

lemma rate_keeps_cache:
  "mem (snd (rate e video_id r s)) = mem s \<and> disk (snd (rate e video_id r s)) = disk s
   \<and> last_location (snd (rate e video_id r s)) = last_location s"
  by (auto simp: rate_def make_call_def Let_def split: option.splits sum.splits)

lemma half_of_int:
  "(of_int k :: rat) / 2 = of_int (k div 2) + (if odd k then 1 / 2 else 0)"
proof (cases "even k")
  case True
  then obtain m where "k = 2 * m" by (auto elim: evenE)
  then show ?thesis by simp
next
  case False
  then obtain m where "k = 2 * m + 1" by (auto elim: oddE)
  then show ?thesis by (simp add: add_divide_distrib)
qed

section \<open>My list\<close>

text \<open>
  C1, as amended. Take a call of \<^verbatim>\<open>_update_my_list\<close> (reached from
  \<^verbatim>\<open>add_to_list\<close> or \<^verbatim>\<open>remove_from_list\<close>) whose remote post succeeds. If the
  setting \<open>invalidate_cache_on_mylist_modify\<close> is on, the call ends with a full
  \<^verbatim>\<open>invalidate_cache()\<close>: both tiers are empty. If it is off and the id of the
  \<open>queue\<close> list resolves, the call clears the last-location marker and removes exactly
  three entries from both tiers: the video list of the resolved id, and the two entries
  \<open>queue\<close> and \<open>root_lists\<close> of the common bucket. Every other entry is as it was
  before the call.
\<close>

theorem update_my_list_invalidation:
  assumes "int_builtin e video_id = Inr n"
    and "remote e (length (trace s)) NetflixSession_post (update_my_list_request operation n) = Some r"
  shows "(invalidate_cache_on_mylist_modify e \<longrightarrow>
            update_my_list e video_id operation s =
              (Inr PyNone,
               s\<lparr>mem := Map.empty, disk := Map.empty,
                 trace := trace s @ [Call NetflixSession_post (update_my_list_request operation n),
                                     Invalidate_cache]\<rparr>))
       \<and> (\<not> invalidate_cache_on_mylist_modify e \<longrightarrow>
            (\<forall>list_id s2.
               list_id_for_type e (PyStr ''queue'')
                 (invalidate_last_location
                    (s\<lparr>trace := trace s @ [Call NetflixSession_post (update_my_list_request operation n)]\<rparr>))
                 = (Inr list_id, s2)
               \<longrightarrow> (\<exists>sf. update_my_list e video_id operation s = (Inr PyNone, sf)
                     \<and> last_location sf = None
                     \<and> (\<forall>k. mem sf k =
                           (if k = (CACHE_VIDEO_LIST, list_id) \<or> k = (CACHE_COMMON, PyStr ''queue'')
                               \<or> k = (CACHE_COMMON, PyStr ''root_lists'')
                            then None else mem s k))
                     \<and> (\<forall>k. disk sf k =
                           (if k = (CACHE_VIDEO_LIST, list_id) \<or> k = (CACHE_COMMON, PyStr ''queue'')
                               \<or> k = (CACHE_COMMON, PyStr ''root_lists'')
                            then None else disk s k)))))"
proof (intro conjI impI allI)
  assume "invalidate_cache_on_mylist_modify e"
  then show "update_my_list e video_id operation s =
      (Inr PyNone,
       s\<lparr>mem := Map.empty, disk := Map.empty,
         trace := trace s @ [Call NetflixSession_post (update_my_list_request operation n),
                             Invalidate_cache]\<rparr>)"
    by (simp add: update_my_list_post_ok[OF assms] invalidate_cache_def)
next
  fix list_id s2
  let ?s1 = "invalidate_last_location
     (s\<lparr>trace := trace s @ [Call NetflixSession_post (update_my_list_request operation n)]\<rparr>)"
  let ?sf = "invalidate_entry CACHE_COMMON (PyStr ''root_lists'')
               (invalidate_entry CACHE_COMMON (PyStr ''queue'')
                  (invalidate_entry CACHE_VIDEO_LIST list_id s2))"
  assume flag: "\<not> invalidate_cache_on_mylist_modify e"
    and res: "list_id_for_type e (PyStr ''queue'') ?s1 = (Inr list_id, s2)"
  have fr: "disk s2 = disk s" "last_location s2 = None"
    "\<And>k. k \<noteq> (CACHE_COMMON, PyStr ''root_lists'') \<Longrightarrow> k \<noteq> (CACHE_COMMON, PyStr ''queue'')
       \<Longrightarrow> mem s2 k = mem s k"
    using list_id_for_type_frame[OF res] by (auto simp: invalidate_last_location_def)
  have "update_my_list e video_id operation s = (Inr PyNone, ?sf)"
    using flag res by (simp add: update_my_list_post_ok[OF assms])
  moreover have "last_location ?sf = None"
    using fr by (simp add: invalidate_entry_def)
  moreover have "\<forall>k. mem ?sf k =
       (if k = (CACHE_VIDEO_LIST, list_id) \<or> k = (CACHE_COMMON, PyStr ''queue'')
           \<or> k = (CACHE_COMMON, PyStr ''root_lists'') then None else mem s k)"
    using fr by (simp add: invalidate_entry_def)
  moreover have "\<forall>k. disk ?sf k =
       (if k = (CACHE_VIDEO_LIST, list_id) \<or> k = (CACHE_COMMON, PyStr ''queue'')
           \<or> k = (CACHE_COMMON, PyStr ''root_lists'') then None else disk s k)"
    using fr by (simp add: invalidate_entry_def)
  ultimately show "\<exists>sf. update_my_list e video_id operation s = (Inr PyNone, sf)
       \<and> last_location sf = None
       \<and> (\<forall>k. mem sf k =
             (if k = (CACHE_VIDEO_LIST, list_id) \<or> k = (CACHE_COMMON, PyStr ''queue'')
                 \<or> k = (CACHE_COMMON, PyStr ''root_lists'')
              then None else mem s k))
       \<and> (\<forall>k. disk sf k =
             (if k = (CACHE_VIDEO_LIST, list_id) \<or> k = (CACHE_COMMON, PyStr ''queue'')
                 \<or> k = (CACHE_COMMON, PyStr ''root_lists'')
              then None else disk s k))"
    by blast
qed

theorem update_my_list_invalidation_witness:
  "int_builtin (example_env True service_up) (PyStr ''80057281'') = Inr 80057281
   \<and> remote (example_env True service_up) (length (trace example_state)) NetflixSession_post
        (update_my_list_request (PyStr ''add'') 80057281) = Some PyNone
   \<and> invalidate_cache_on_mylist_modify (example_env True service_up)
   \<and> update_my_list (example_env True service_up) (PyStr ''80057281'') (PyStr ''add'') example_state =
       (Inr PyNone,
        example_state\<lparr>mem := Map.empty, disk := Map.empty,
          trace := trace example_state @
            [Call NetflixSession_post (update_my_list_request (PyStr ''add'') 80057281),
             Invalidate_cache]\<rparr>)
   \<and> int_builtin (example_env False service_up) (PyStr ''80057281'') = Inr 80057281
   \<and> remote (example_env False service_up) (length (trace example_state)) NetflixSession_post
        (update_my_list_request (PyStr ''add'') 80057281) = Some PyNone
   \<and> \<not> invalidate_cache_on_mylist_modify (example_env False service_up)
   \<and> fst (list_id_for_type (example_env False service_up) (PyStr ''queue'')
        (invalidate_last_location
           (example_state\<lparr>trace := trace example_state @
              [Call NetflixSession_post (update_my_list_request (PyStr ''add'') 80057281)]\<rparr>)))
        = Inr (PyStr ''list-1'')
   \<and> (\<exists>sf. update_my_list (example_env False service_up) (PyStr ''80057281'') (PyStr ''add'')
              example_state = (Inr PyNone, sf)
          \<and> last_location sf = None
          \<and> mem sf (CACHE_VIDEO_LIST, PyStr ''list-1'') = None
          \<and> mem sf (CACHE_COMMON, PyStr ''queue'') = None
          \<and> mem sf (CACHE_COMMON, PyStr ''root_lists'') = None
          \<and> mem sf (CACHE_METADATA, PyStr ''70143836'') =
              Some (example_entry example_old_metadata))"
proof -
  let ?t = "example_env True service_up" and ?f = "example_env False service_up"
  let ?vid = "PyStr ''80057281''" and ?op = "PyStr ''add''"
  let ?s1 = "invalidate_last_location
           (example_state\<lparr>trace := trace example_state @
              [Call NetflixSession_post (update_my_list_request ?op 80057281)]\<rparr>)"
  have t1: "int_builtin ?t ?vid = Inr 80057281"
    by (simp add: int_builtin_def example_env_def)
  have t2: "remote ?t (length (trace example_state)) NetflixSession_post
        (update_my_list_request ?op 80057281) = Some PyNone"
    by (simp add: example_env_def service_up_def)
  have t3: "invalidate_cache_on_mylist_modify ?t"
    by (simp add: example_env_def)
  have f1: "int_builtin ?f ?vid = Inr 80057281"
    by (simp add: int_builtin_def example_env_def)
  have f2: "remote ?f (length (trace example_state)) NetflixSession_post
        (update_my_list_request ?op 80057281) = Some PyNone"
    by (simp add: example_env_def service_up_def)
  have f3: "\<not> invalidate_cache_on_mylist_modify ?f"
    by (simp add: example_env_def)
  have f4: "list_id_for_type ?f (PyStr ''queue'') ?s1 = (Inr (PyStr ''list-1''), ?s1)"
    by (simp add: ex_defs cache_defs op_defs)
  have T: "update_my_list ?t ?vid ?op example_state =
       (Inr PyNone,
        example_state\<lparr>mem := Map.empty, disk := Map.empty,
          trace := trace example_state @
            [Call NetflixSession_post (update_my_list_request ?op 80057281),
             Invalidate_cache]\<rparr>)"
    using update_my_list_invalidation[OF t1 t2] t3 by blast
  from update_my_list_invalidation[OF f1 f2] f3 f4 obtain sf where
    sf: "update_my_list ?f ?vid ?op example_state = (Inr PyNone, sf)"
      "last_location sf = None"
      "\<forall>k. mem sf k =
         (if k = (CACHE_VIDEO_LIST, PyStr ''list-1'') \<or> k = (CACHE_COMMON, PyStr ''queue'')
             \<or> k = (CACHE_COMMON, PyStr ''root_lists'')
          then None else mem example_state k)"
    by blast
  have m: "mem sf (CACHE_VIDEO_LIST, PyStr ''list-1'') = None"
    "mem sf (CACHE_COMMON, PyStr ''queue'') = None"
    "mem sf (CACHE_COMMON, PyStr ''root_lists'') = None"
    "mem sf (CACHE_METADATA, PyStr ''70143836'') = Some (example_entry example_old_metadata)"
    using sf(3) by (simp_all add: example_state_def)
  have F: "\<exists>sf. update_my_list ?f ?vid ?op example_state = (Inr PyNone, sf)
          \<and> last_location sf = None
          \<and> mem sf (CACHE_VIDEO_LIST, PyStr ''list-1'') = None
          \<and> mem sf (CACHE_COMMON, PyStr ''queue'') = None
          \<and> mem sf (CACHE_COMMON, PyStr ''root_lists'') = None
          \<and> mem sf (CACHE_METADATA, PyStr ''70143836'') =
              Some (example_entry example_old_metadata)"
    using sf(1,2) m by blast
  have f4': "fst (list_id_for_type ?f (PyStr ''queue'') ?s1) = Inr (PyStr ''list-1'')"
    using f4 by simp
  show ?thesis
    using t1 t2 t3 T f1 f2 f3 f4' F by blast
qed

text \<open>
  With the setting off, one call of \<^verbatim>\<open>add_to_list\<close> on the example cache removes two
  entries of the common bucket, \<open>queue\<close> and \<open>root_lists\<close>, not one.
\<close>

theorem update_my_list_two_common_entries_counterexample:
  "mem example_state (CACHE_COMMON, PyStr ''queue'') \<noteq> None
   \<and> mem example_state (CACHE_COMMON, PyStr ''root_lists'') \<noteq> None
   \<and> fst (add_to_list (example_env False service_up) (PyStr ''80057281'') example_state) = Inr PyNone
   \<and> mem (snd (add_to_list (example_env False service_up) (PyStr ''80057281'') example_state))
        (CACHE_COMMON, PyStr ''queue'') = None
   \<and> mem (snd (add_to_list (example_env False service_up) (PyStr ''80057281'') example_state))
        (CACHE_COMMON, PyStr ''root_lists'') = None"
  by (simp add: ex_defs cache_defs op_defs)

text \<open>
  C9. On the selective path of \<^verbatim>\<open>_update_my_list\<close> the events after the successful
  post are, in this order: the invalidation of the last-location marker, the resolution
  of the id of the \<open>queue\<close> list (at most one fetch of the root lists), and then the
  invalidation of the video list of that id, of the common entry \<open>queue\<close> and of the
  common entry \<open>root_lists\<close>. When the resolution raises InvalidVideoListTypeError,
  the error leaves \<^verbatim>\<open>_update_my_list\<close> after the post and after the marker was
  cleared, no entry is invalidated, and the entry \<open>root_lists\<close> is still in the cache.
\<close>

theorem update_my_list_selective_sequence:
  assumes "int_builtin e video_id = Inr n"
    and "remote e (length (trace s)) NetflixSession_post (update_my_list_request operation n) = Some r"
    and "\<not> invalidate_cache_on_mylist_modify e"
    and "list_id_for_type e (PyStr ''queue'')
           (invalidate_last_location
              (s\<lparr>trace := trace s @ [Call NetflixSession_post (update_my_list_request operation n)]\<rparr>))
         = (res, s2)"
  shows "(\<exists>fetch. (fetch = [] \<or> fetch = [Call NetflixSession_path_request root_lists_request])
            \<and> trace s2 = trace s @ [Call NetflixSession_post (update_my_list_request operation n),
                                    Invalidate_last_location] @ fetch)
       \<and> (\<forall>list_id. res = Inr list_id \<longrightarrow>
            fst (update_my_list e video_id operation s) = Inr PyNone
            \<and> trace (snd (update_my_list e video_id operation s)) =
                trace s2 @ [Invalidate_entry CACHE_VIDEO_LIST list_id,
                            Invalidate_entry CACHE_COMMON (PyStr ''queue''),
                            Invalidate_entry CACHE_COMMON (PyStr ''root_lists'')])
       \<and> (res = Inl InvalidVideoListTypeError \<longrightarrow>
            update_my_list e video_id operation s = (Inl InvalidVideoListTypeError, s2)
            \<and> last_location s2 = None
            \<and> mem s2 (CACHE_COMMON, PyStr ''root_lists'') \<noteq> None
            \<and> (\<forall>k. k \<noteq> (CACHE_COMMON, PyStr ''root_lists'') \<longrightarrow> mem s2 k = mem s k)
            \<and> disk s2 = disk s)"
proof -
  let ?post = "Call NetflixSession_post (update_my_list_request operation n)"
  let ?s1 = "invalidate_last_location (s\<lparr>trace := trace s @ [?post]\<rparr>)"
  note u = update_my_list_post_ok[OF assms(1,2)]
  have fr: "disk s2 = disk s" "last_location s2 = None"
      "trace s2 = trace s @ [?post, Invalidate_last_location]
         \<or> trace s2 = trace s @ [?post, Invalidate_last_location,
                                  Call NetflixSession_path_request root_lists_request]"
    using list_id_for_type_frame[OF assms(4)] by (auto simp: invalidate_last_location_def)
  have A: "\<exists>fetch. (fetch = [] \<or> fetch = [Call NetflixSession_path_request root_lists_request])
            \<and> trace s2 = trace s @ [?post, Invalidate_last_location] @ fetch"
    using fr(3) by auto
  have B: "\<forall>list_id. res = Inr list_id \<longrightarrow>
            fst (update_my_list e video_id operation s) = Inr PyNone
            \<and> trace (snd (update_my_list e video_id operation s)) =
                trace s2 @ [Invalidate_entry CACHE_VIDEO_LIST list_id,
                            Invalidate_entry CACHE_COMMON (PyStr ''queue''),
                            Invalidate_entry CACHE_COMMON (PyStr ''root_lists'')]"
    using assms(3,4) by (simp add: u invalidate_entry_def)
  have C: "res = Inl InvalidVideoListTypeError \<longrightarrow>
            update_my_list e video_id operation s = (Inl InvalidVideoListTypeError, s2)
            \<and> last_location s2 = None
            \<and> mem s2 (CACHE_COMMON, PyStr ''root_lists'') \<noteq> None
            \<and> (\<forall>k. k \<noteq> (CACHE_COMMON, PyStr ''root_lists'') \<longrightarrow> mem s2 k = mem s k)
            \<and> disk s2 = disk s"
  proof
    assume r: "res = Inl InvalidVideoListTypeError"
    with assms(4) obtain d where rl: "root_lists e ?s1 = (Inr (LoLoMo d), s2)"
      using list_id_for_type_raises by blast
    have "mem s2 (CACHE_COMMON, PyStr ''root_lists'') \<noteq> None"
      "\<forall>k. k \<noteq> (CACHE_COMMON, PyStr ''root_lists'') \<longrightarrow> mem s2 k = mem s k"
      using root_lists_frame[OF rl] by (auto simp: invalidate_last_location_def)
    with r assms(3,4) fr show "update_my_list e video_id operation s = (Inl InvalidVideoListTypeError, s2)
            \<and> last_location s2 = None
            \<and> mem s2 (CACHE_COMMON, PyStr ''root_lists'') \<noteq> None
            \<and> (\<forall>k. k \<noteq> (CACHE_COMMON, PyStr ''root_lists'') \<longrightarrow> mem s2 k = mem s k)
            \<and> disk s2 = disk s"
      by (simp add: u)
  qed
  from A B C show ?thesis by blast
qed

theorem update_my_list_selective_sequence_witness:
  "int_builtin (example_env False service_up) (PyStr ''80057281'') = Inr 80057281
   \<and> remote (example_env False service_up) (length (trace example_state)) NetflixSession_post
        (update_my_list_request (PyStr ''add'') 80057281) = Some PyNone
   \<and> \<not> invalidate_cache_on_mylist_modify (example_env False service_up)
   \<and> fst (list_id_for_type (example_env False service_up) (PyStr ''queue'')
        (invalidate_last_location
           (example_state\<lparr>trace := trace example_state @
              [Call NetflixSession_post (update_my_list_request (PyStr ''add'') 80057281)]\<rparr>)))
        = Inr (PyStr ''list-1'')
   \<and> add_to_list (example_env False service_up) (PyStr ''80057281'') example_state
        = update_my_list (example_env False service_up) (PyStr ''80057281'') (PyStr ''add'') example_state
   \<and> trace (snd (update_my_list (example_env False service_up) (PyStr ''80057281'') (PyStr ''add'')
                   example_state)) =
        [Call NetflixSession_post (update_my_list_request (PyStr ''add'') 80057281),
         Invalidate_last_location,
         Invalidate_entry CACHE_VIDEO_LIST (PyStr ''list-1''),
         Invalidate_entry CACHE_COMMON (PyStr ''queue''),
         Invalidate_entry CACHE_COMMON (PyStr ''root_lists'')]
   \<and> remote (example_env False service_up) (length (trace example_expired_state)) NetflixSession_post
        (update_my_list_request (PyStr ''add'') 80057281) = Some PyNone
   \<and> fst (list_id_for_type (example_env False service_up) (PyStr ''queue'')
        (invalidate_last_location
           (example_expired_state\<lparr>trace := trace example_expired_state @
              [Call NetflixSession_post (update_my_list_request (PyStr ''add'') 80057281)]\<rparr>)))
        = Inl InvalidVideoListTypeError
   \<and> fst (update_my_list (example_env False service_up) (PyStr ''80057281'') (PyStr ''add'')
             example_expired_state) = Inl InvalidVideoListTypeError
   \<and> trace (snd (update_my_list (example_env False service_up) (PyStr ''80057281'') (PyStr ''add'')
                   example_expired_state)) =
        [Call NetflixSession_post (update_my_list_request (PyStr ''add'') 80057281),
         Invalidate_last_location,
         Call NetflixSession_path_request root_lists_request]
   \<and> last_location (snd (update_my_list (example_env False service_up) (PyStr ''80057281'')
                           (PyStr ''add'') example_expired_state)) = None
   \<and> mem (snd (update_my_list (example_env False service_up) (PyStr ''80057281'') (PyStr ''add'')
                 example_expired_state)) (CACHE_COMMON, PyStr ''root_lists'') \<noteq> None
   \<and> mem (snd (update_my_list (example_env False service_up) (PyStr ''80057281'') (PyStr ''add'')
                 example_expired_state)) (CACHE_VIDEO_LIST, PyStr ''list-1'')
        = Some (example_entry (VideoList (PyDict [])))"
proof -
  let ?e = "example_env False service_up"
  let ?vid = "PyStr ''80057281''" and ?op = "PyStr ''add''" and ?q = "PyStr ''queue''"
  let ?post = "Call NetflixSession_post (update_my_list_request ?op 80057281)"
  let ?s1 = "invalidate_last_location (example_state\<lparr>trace := trace example_state @ [?post]\<rparr>)"
  let ?x1 = "invalidate_last_location
       (example_expired_state\<lparr>trace := trace example_expired_state @ [?post]\<rparr>)"
  let ?x2 = "snd (list_id_for_type ?e ?q ?x1)"
  have h1: "int_builtin ?e ?vid = Inr 80057281"
    by (simp add: int_builtin_def example_env_def)
  have h2: "remote ?e (length (trace example_state)) NetflixSession_post
        (update_my_list_request ?op 80057281) = Some PyNone"
    by (simp add: example_env_def service_up_def)
  have h2x: "remote ?e (length (trace example_expired_state)) NetflixSession_post
        (update_my_list_request ?op 80057281) = Some PyNone"
    by (simp add: example_env_def service_up_def)
  have h3: "\<not> invalidate_cache_on_mylist_modify ?e"
    by (simp add: example_env_def)
  have h4: "list_id_for_type ?e ?q ?s1 = (Inr (PyStr ''list-1''), ?s1)"
    by (simp add: ex_defs cache_defs op_defs)
  have h4x: "fst (list_id_for_type ?e ?q ?x1) = Inl InvalidVideoListTypeError"
    by (simp add: example_expired_state_def ex_defs cache_defs op_defs)
  then have h4x': "list_id_for_type ?e ?q ?x1 = (Inl InvalidVideoListTypeError, ?x2)"
    by (metis prod.collapse)
  note S = update_my_list_selective_sequence[OF h1 h2 h3 h4]
  note X = update_my_list_selective_sequence[OF h1 h2x h3 h4x']
  have s1: "trace (snd (update_my_list ?e ?vid ?op example_state)) =
      trace ?s1 @ [Invalidate_entry CACHE_VIDEO_LIST (PyStr ''list-1''),
                   Invalidate_entry CACHE_COMMON ?q,
                   Invalidate_entry CACHE_COMMON (PyStr ''root_lists'')]"
    using S by blast
  have s2: "trace (snd (update_my_list ?e ?vid ?op example_state)) =
        [?post, Invalidate_last_location,
         Invalidate_entry CACHE_VIDEO_LIST (PyStr ''list-1''),
         Invalidate_entry CACHE_COMMON ?q,
         Invalidate_entry CACHE_COMMON (PyStr ''root_lists'')]"
    unfolding s1 by (simp add: invalidate_last_location_def example_state_def)
  have x1: "update_my_list ?e ?vid ?op example_expired_state = (Inl InvalidVideoListTypeError, ?x2)"
    "last_location ?x2 = None"
    "mem ?x2 (CACHE_COMMON, PyStr ''root_lists'') \<noteq> None"
    "\<forall>k. k \<noteq> (CACHE_COMMON, PyStr ''root_lists'') \<longrightarrow> mem ?x2 k = mem example_expired_state k"
    using X by blast+
  have x2: "trace ?x2 = [?post, Invalidate_last_location,
                         Call NetflixSession_path_request root_lists_request]"
    by (simp add: example_expired_state_def ex_defs cache_defs op_defs)
  have x3: "mem ?x2 (CACHE_VIDEO_LIST, PyStr ''list-1'') = Some (example_entry (VideoList (PyDict [])))"
    using x1(4) by (simp add: example_expired_state_def example_state_def)
  have a: "add_to_list ?e ?vid example_state = update_my_list ?e ?vid ?op example_state"
    by (simp add: add_to_list_def)
  have h4': "fst (list_id_for_type ?e ?q ?s1) = Inr (PyStr ''list-1'')"
    using h4 by simp
  show ?thesis
    using h1 h2 h3 h4' a s2 h2x h4x x1(1,2,3) x2 x3 by simp
qed

section \<open>Mutations and invalidation\<close>

text \<open>
  C3, as amended. \<^verbatim>\<open>activate_profile\<close>, \<^verbatim>\<open>login\<close> and \<^verbatim>\<open>logout\<close> call
  \<^verbatim>\<open>invalidate_cache()\<close> first and the service second, so both tiers are empty
  after the call whether the service succeeded or failed. \<^verbatim>\<open>add_to_list\<close> and
  \<^verbatim>\<open>remove_from_list\<close> invalidate only after their remote post has succeeded (the
  event after the post is \<^verbatim>\<open>invalidate_cache\<close> or \<^verbatim>\<open>invalidate_last_location\<close>,
  according to the setting), and when the post fails they change nothing but the record
  of the call.
\<close>

theorem mutations_invalidation_order:
  "snd (activate_profile e profile_id s) =
      s\<lparr>mem := Map.empty, disk := Map.empty,
        trace := trace s @ [Invalidate_cache, Call NetflixSession_activate_profile [profile_id]]\<rparr>
   \<and> snd (login e s) =
      s\<lparr>mem := Map.empty, disk := Map.empty,
        trace := trace s @ [Invalidate_cache, Call NetflixSession_login []]\<rparr>
   \<and> snd (logout e s) =
      s\<lparr>mem := Map.empty, disk := Map.empty,
        trace := trace s @ [Invalidate_cache, Call NetflixSession_logout []]\<rparr>
   \<and> add_to_list e video_id s = update_my_list e video_id (PyStr ''add'') s
   \<and> remove_from_list e video_id s = update_my_list e video_id (PyStr ''remove'') s
   \<and> (int_builtin e video_id = Inr n
       \<and> remote e (length (trace s)) NetflixSession_post (update_my_list_request operation n) = None
      \<longrightarrow> update_my_list e video_id operation s =
            (Inl CallError,
             s\<lparr>trace := trace s @ [Call NetflixSession_post (update_my_list_request operation n)]\<rparr>))
   \<and> (int_builtin e video_id = Inr n
       \<and> remote e (length (trace s)) NetflixSession_post (update_my_list_request operation n) = Some r
      \<longrightarrow> take (length (trace s) + 2) (trace (snd (update_my_list e video_id operation s))) =
            trace s @ [Call NetflixSession_post (update_my_list_request operation n),
                       if invalidate_cache_on_mylist_modify e then Invalidate_cache
                       else Invalidate_last_location])"
proof (intro conjI impI)
  show "snd (activate_profile e profile_id s) =
      s\<lparr>mem := Map.empty, disk := Map.empty,
        trace := trace s @ [Invalidate_cache, Call NetflixSession_activate_profile [profile_id]]\<rparr>"
    by (simp add: activate_profile_def make_call_def invalidate_cache_def Let_def split: option.splits)
  show "snd (login e s) =
      s\<lparr>mem := Map.empty, disk := Map.empty,
        trace := trace s @ [Invalidate_cache, Call NetflixSession_login []]\<rparr>"
    by (simp add: login_def make_call_def invalidate_cache_def Let_def split: option.splits)
  show "snd (logout e s) =
      s\<lparr>mem := Map.empty, disk := Map.empty,
        trace := trace s @ [Invalidate_cache, Call NetflixSession_logout []]\<rparr>"
    by (simp add: logout_def make_call_def invalidate_cache_def Let_def split: option.splits)
  show "add_to_list e video_id s = update_my_list e video_id (PyStr ''add'') s"
    by (simp add: add_to_list_def)
  show "remove_from_list e video_id s = update_my_list e video_id (PyStr ''remove'') s"
    by (simp add: remove_from_list_def)
next
  assume "int_builtin e video_id = Inr n
       \<and> remote e (length (trace s)) NetflixSession_post (update_my_list_request operation n) = None"
  then show "update_my_list e video_id operation s =
            (Inl CallError,
             s\<lparr>trace := trace s @ [Call NetflixSession_post (update_my_list_request operation n)]\<rparr>)"
    by (simp add: update_my_list_def make_call_def Let_def)
next
  let ?post = "Call NetflixSession_post (update_my_list_request operation n)"
  let ?s1 = "invalidate_last_location (s\<lparr>trace := trace s @ [?post]\<rparr>)"
  assume a: "int_builtin e video_id = Inr n
       \<and> remote e (length (trace s)) NetflixSession_post (update_my_list_request operation n) = Some r"
  then have u: "update_my_list e video_id operation s =
     (if invalidate_cache_on_mylist_modify e
      then (Inr PyNone, invalidate_cache (s\<lparr>trace := trace s @ [?post]\<rparr>))
      else (case list_id_for_type e (PyStr ''queue'') ?s1 of
              (Inl err, s2) \<Rightarrow> (Inl err, s2)
            | (Inr list_id, s2) \<Rightarrow>
                (Inr PyNone,
                 invalidate_entry CACHE_COMMON (PyStr ''root_lists'')
                   (invalidate_entry CACHE_COMMON (PyStr ''queue'')
                      (invalidate_entry CACHE_VIDEO_LIST list_id s2)))))"
    using update_my_list_post_ok by blast
  show "take (length (trace s) + 2) (trace (snd (update_my_list e video_id operation s))) =
            trace s @ [?post, if invalidate_cache_on_mylist_modify e then Invalidate_cache
                       else Invalidate_last_location]"
  proof (cases "invalidate_cache_on_mylist_modify e")
    case True
    then show ?thesis by (simp add: u invalidate_cache_def)
  next
    case False
    obtain r2 s2 where res: "list_id_for_type e (PyStr ''queue'') ?s1 = (r2, s2)"
      by (cases "list_id_for_type e (PyStr ''queue'') ?s1")
    have t2: "trace s2 = trace s @ [?post, Invalidate_last_location]
            \<or> trace s2 = trace s @ [?post, Invalidate_last_location,
                                     Call NetflixSession_path_request root_lists_request]"
      using list_id_for_type_frame[OF res] by (auto simp: invalidate_last_location_def)
    show ?thesis
    proof (cases r2)
      case (Inl err)
      with False res t2 show ?thesis by (auto simp: u)
    next
      case (Inr lid)
      with False res t2 show ?thesis by (auto simp: u invalidate_entry_def)
    qed
  qed
qed

theorem mutations_invalidation_order_witness:
  "int_builtin (example_env False service_down) (PyStr ''80057281'') = Inr 80057281
   \<and> remote (example_env False service_down) (length (trace example_state)) NetflixSession_post
        (update_my_list_request (PyStr ''remove'') 80057281) = None
   \<and> remove_from_list (example_env False service_down) (PyStr ''80057281'') example_state =
        (Inl CallError,
         example_state\<lparr>trace := trace example_state @
            [Call NetflixSession_post (update_my_list_request (PyStr ''remove'') 80057281)]\<rparr>)
   \<and> int_builtin (example_env False service_up) (PyStr ''80057281'') = Inr 80057281
   \<and> remote (example_env False service_up) (length (trace example_state)) NetflixSession_post
        (update_my_list_request (PyStr ''add'') 80057281) = Some PyNone
   \<and> take (length (trace example_state) + 2)
        (trace (snd (add_to_list (example_env False service_up) (PyStr ''80057281'') example_state))) =
        trace example_state @
          [Call NetflixSession_post (update_my_list_request (PyStr ''add'') 80057281),
           Invalidate_last_location]
   \<and> snd (login (example_env False service_down) example_state) =
        example_state\<lparr>mem := Map.empty, disk := Map.empty,
          trace := trace example_state @ [Invalidate_cache, Call NetflixSession_login []]\<rparr>"
proof -
  let ?d = "example_env False service_down" and ?u = "example_env False service_up"
  let ?vid = "PyStr ''80057281''"
  have d1: "int_builtin ?d ?vid = Inr 80057281"
    by (simp add: int_builtin_def example_env_def)
  have d2: "remote ?d (length (trace example_state)) NetflixSession_post
        (update_my_list_request (PyStr ''remove'') 80057281) = None"
    by (simp add: example_env_def service_down_def)
  have u1: "int_builtin ?u ?vid = Inr 80057281"
    by (simp add: int_builtin_def example_env_def)
  have u2: "remote ?u (length (trace example_state)) NetflixSession_post
        (update_my_list_request (PyStr ''add'') 80057281) = Some PyNone"
    by (simp add: example_env_def service_up_def)
  have u3: "\<not> invalidate_cache_on_mylist_modify ?u"
    by (simp add: example_env_def)
  note D = mutations_invalidation_order[where e = ?d and video_id = ?vid and n = 80057281 and s = example_state
      and operation = "PyStr ''remove''"]
  note U = mutations_invalidation_order[where e = ?u and video_id = ?vid and n = 80057281 and s = example_state
      and operation = "PyStr ''add''" and r = PyNone]
  have r1: "remove_from_list ?d ?vid example_state =
        (Inl CallError,
         example_state\<lparr>trace := trace example_state @
            [Call NetflixSession_post (update_my_list_request (PyStr ''remove'') 80057281)]\<rparr>)"
    using D d1 d2 by simp
  have r2: "take (length (trace example_state) + 2)
        (trace (snd (add_to_list ?u ?vid example_state))) =
        trace example_state @
          [Call NetflixSession_post (update_my_list_request (PyStr ''add'') 80057281),
           Invalidate_last_location]"
    using U u1 u2 u3 by simp
  have r3: "snd (login ?d example_state) =
        example_state\<lparr>mem := Map.empty, disk := Map.empty,
          trace := trace example_state @ [Invalidate_cache, Call NetflixSession_login []]\<rparr>"
    using D by blast
  show ?thesis
    using d1 d2 u1 u2 r1 r2 r3 by blast
qed

text \<open>
  A call of \<^verbatim>\<open>activate_profile\<close> against the failing service: the call raises, and
  the cache has been emptied all the same.
\<close>

theorem activate_profile_failed_call_counterexample:
  "mem example_state (CACHE_VIDEO_LIST, PyStr ''list-1'') \<noteq> None
   \<and> fst (activate_profile (example_env False service_down) (PyStr ''profile-1'') example_state)
       = Inl CallError
   \<and> mem (snd (activate_profile (example_env False service_down) (PyStr ''profile-1'') example_state))
       (CACHE_VIDEO_LIST, PyStr ''list-1'') = None
   \<and> trace (snd (activate_profile (example_env False service_down) (PyStr ''profile-1'') example_state))
       = [Invalidate_cache, Call NetflixSession_activate_profile [PyStr ''profile-1'']]"
  by (simp add: ex_defs cache_defs activate_profile_def)

section \<open>Resolving a list id\<close>

text \<open>
  C4, as amended. \<^verbatim>\<open>list_id_for_type\<close> is itself cached. When a fresh entry is held
  under (CACHE_COMMON, list type), its value is returned and the root lists are not
  consulted. Otherwise, with the root lists that \<^verbatim>\<open>root_lists()\<close> returns (cached or
  fetched): if no list of them has the context, the call raises
  InvalidVideoListTypeError and returns no identifier; if some list has, the call
  returns the id of the first such list.
\<close>

theorem list_id_for_type_resolution:
  "(\<forall>en. lookup_fresh (mem s) (CACHE_COMMON, list_type) (now s) = Some en
        \<longrightarrow> list_id_for_type e list_type s = (Inr (payload en), s))
   \<and> (lookup_fresh (mem s) (CACHE_COMMON, list_type) (now s) = None
        \<and> root_lists e s = (Inr (LoLoMo d), s1)
      \<longrightarrow> (lists_by_context e d list_type = []
             \<longrightarrow> list_id_for_type e list_type s = (Inl InvalidVideoListTypeError, s1))
        \<and> (\<forall>x xs. lists_by_context e d list_type = x # xs
             \<longrightarrow> fst (list_id_for_type e list_type s) = Inr (fst x)))"
  by (auto simp: list_id_for_type_unfold list_id_for_type_body_def split: list.splits)

theorem list_id_for_type_resolution_witness:
  "lookup_fresh (mem example_state) (CACHE_COMMON, PyStr ''queue'') (now example_state)
     = Some (example_entry (PyStr ''list-1''))
   \<and> list_id_for_type (example_env False service_up) (PyStr ''queue'') example_state
     = (Inr (PyStr ''list-1''), example_state)
   \<and> lookup_fresh (mem empty_state) (CACHE_COMMON, PyStr ''queue'') (now empty_state) = None
   \<and> fst (root_lists (example_env False service_up) empty_state)
       = Inr (LoLoMo example_lolomo_without_queue)
   \<and> lists_by_context (example_env False service_up) example_lolomo_without_queue (PyStr ''queue'') = []
   \<and> fst (list_id_for_type (example_env False service_up) (PyStr ''queue'') empty_state)
       = Inl InvalidVideoListTypeError
   \<and> fst (root_lists (example_env False service_changing) empty_state) = Inr (LoLoMo example_lolomo)
   \<and> lists_by_context (example_env False service_changing) example_lolomo (PyStr ''queue'')
       = [(PyStr ''list-1'', PyDict [(''id'', PyStr ''list-1''), (''context'', PyStr ''queue'')])]
   \<and> fst (list_id_for_type (example_env False service_changing) (PyStr ''queue'') empty_state)
       = Inr (PyStr ''list-1'')"
proof -
  let ?u = "example_env False service_up" and ?c = "example_env False service_changing"
  let ?q = "PyStr ''queue''"
  have a1: "lookup_fresh (mem example_state) (CACHE_COMMON, ?q) (now example_state)
     = Some (example_entry (PyStr ''list-1''))"
    by (simp add: lookup_fresh_def fresh_def example_state_def example_entry_def)
  have a2: "list_id_for_type ?u ?q example_state = (Inr (PyStr ''list-1''), example_state)"
    using list_id_for_type_resolution[where e = ?u and s = example_state and list_type = ?q] a1
    by (simp add: example_entry_def)
  have b1: "lookup_fresh (mem empty_state) (CACHE_COMMON, ?q) (now empty_state) = None"
    by (simp add: lookup_fresh_def empty_state_def)
  have b2: "root_lists ?u empty_state
      = (Inr (LoLoMo example_lolomo_without_queue), snd (root_lists ?u empty_state))"
    by (simp add: ex_defs cache_defs op_defs)
  have b3: "lists_by_context ?u example_lolomo_without_queue ?q = []"
    by (simp add: ex_defs py_getitem_def)
  have b4: "fst (list_id_for_type ?u ?q empty_state) = Inl InvalidVideoListTypeError"
    using list_id_for_type_resolution[where e = ?u and s = empty_state and list_type = ?q
        and d = example_lolomo_without_queue and ?s1.0 = "snd (root_lists ?u empty_state)"]
      b1 b2 b3 by simp
  have q2: "root_lists ?c empty_state = (Inr (LoLoMo example_lolomo), snd (root_lists ?c empty_state))"
    by (simp add: ex_defs cache_defs op_defs)
  have q3: "lists_by_context ?c example_lolomo ?q
       = [(PyStr ''list-1'', PyDict [(''id'', PyStr ''list-1''), (''context'', PyStr ''queue'')])]"
    by (simp add: ex_defs py_getitem_def)
  have q4: "fst (list_id_for_type ?c ?q empty_state) = Inr (PyStr ''list-1'')"
    using list_id_for_type_resolution[where e = ?c and s = empty_state and list_type = ?q
        and d = example_lolomo and ?s1.0 = "snd (root_lists ?c empty_state)"]
      b1 q2 q3 by simp
  have b2': "fst (root_lists ?u empty_state) = Inr (LoLoMo example_lolomo_without_queue)"
    using b2 by (metis fst_conv)
  have q2b: "fst (root_lists ?c empty_state) = Inr (LoLoMo example_lolomo)"
    using q2 by (metis fst_conv)
  show ?thesis
    using a1 a2 b1 b2' b3 b4 q2b q3 q4 by blast
qed

text \<open>
  At the end of the example run the root lists have expired and the service has no
  \<open>queue\<close> list any more, so the root lists a call gets hold no such list; the id
  resolved earlier is still fresh, and \<^verbatim>\<open>list_id_for_type\<close> returns it.
\<close>

theorem list_id_for_type_cached_id_counterexample:
  "fst (root_lists (example_env False service_changing) example_refetch_state_3)
     = Inr (LoLoMo example_lolomo_without_queue)
   \<and> lists_by_context (example_env False service_changing) example_lolomo_without_queue (PyStr ''queue'') = []
   \<and> list_id_for_type (example_env False service_changing) (PyStr ''queue'') example_refetch_state_3
     = (Inr (PyStr ''list-1''), example_refetch_state_3)"
  by (simp add: rf_defs ex_defs cache_defs op_defs)

section \<open>Episode metadata\<close>

text \<open>
  C2, as amended. When the \<^verbatim>\<open>try\<close> block of \<^verbatim>\<open>episode_metadata\<close> raises KeyError,
  the entry of the aggregate is invalidated and the aggregate is requested from the
  service exactly once, and nothing else happens: the recovery runs once. If that
  request fails, the failure goes to the caller. If the answer cannot be read (it has
  no entry \<open>video\<close>, or is no dictionary), the error of reading it goes to the
  caller. Otherwise the result is what the chain of \<^verbatim>\<open>get\<close> calls gives on the new
  aggregate: whenever that is a value, it is the episode found in the aggregate, or
  the empty dictionary when there is none.
  When the \<^verbatim>\<open>try\<close> block does not raise KeyError there is no recovery.
\<close>

theorem episode_metadata_recovery:
  "(episode_metadata_try e tvshowid episodeid s = (Inl KeyError, s1) \<longrightarrow>
      trace (snd (episode_metadata e tvshowid seasonid episodeid s)) =
        trace s1 @ [Invalidate_entry CACHE_METADATA tvshowid,
                    Call NetflixSession_get (metadata_request tvshowid)]
      \<and> (remote e (Suc (length (trace s1))) NetflixSession_get (metadata_request tvshowid) = None
           \<longrightarrow> fst (episode_metadata e tvshowid seasonid episodeid s) = Inl CallError)
      \<and> (\<forall>r err. remote e (Suc (length (trace s1))) NetflixSession_get (metadata_request tvshowid) = Some r
                  \<and> py_getitem r ''video'' = Inl err
           \<longrightarrow> fst (episode_metadata e tvshowid seasonid episodeid s) = Inl err)
      \<and> (\<forall>r md. remote e (Suc (length (trace s1))) NetflixSession_get (metadata_request tvshowid) = Some r
                  \<and> py_getitem r ''video'' = Inr md
           \<longrightarrow> fst (episode_metadata e tvshowid seasonid episodeid s) =
                 episode_or_empty md seasonid episodeid
             \<and> (\<forall>v. episode_or_empty md seasonid episodeid = Inr v \<longrightarrow>
                   v = (case found_episode md seasonid episodeid of
                          Some ep \<Rightarrow> ep | None \<Rightarrow> PyDict []))))
   \<and> (fst (episode_metadata_try e tvshowid episodeid s) \<noteq> Inl KeyError \<longrightarrow>
        episode_metadata e tvshowid seasonid episodeid s = episode_metadata_try e tvshowid episodeid s)"
proof (intro conjI impI allI)
  assume t: "episode_metadata_try e tvshowid episodeid s = (Inl KeyError, s1)"
  then have em: "episode_metadata e tvshowid seasonid episodeid s =
      episode_metadata_recover e tvshowid seasonid episodeid s1"
    by (simp add: episode_metadata_def)
  show "trace (snd (episode_metadata e tvshowid seasonid episodeid s)) =
        trace s1 @ [Invalidate_entry CACHE_METADATA tvshowid,
                    Call NetflixSession_get (metadata_request tvshowid)]"
    by (simp add: em episode_metadata_recover_def metadata_after_invalidate
          split: option.splits sum.splits)
  {
    assume "remote e (Suc (length (trace s1))) NetflixSession_get (metadata_request tvshowid) = None"
    then show "fst (episode_metadata e tvshowid seasonid episodeid s) = Inl CallError"
      by (simp add: em episode_metadata_recover_def metadata_after_invalidate)
  }
  {
    fix r err
    assume "remote e (Suc (length (trace s1))) NetflixSession_get (metadata_request tvshowid) = Some r
                  \<and> py_getitem r ''video'' = Inl err"
    then show "fst (episode_metadata e tvshowid seasonid episodeid s) = Inl err"
      by (simp add: em episode_metadata_recover_def metadata_after_invalidate)
  }
  {
    fix r md
    assume "remote e (Suc (length (trace s1))) NetflixSession_get (metadata_request tvshowid) = Some r
                  \<and> py_getitem r ''video'' = Inr md"
    then show "fst (episode_metadata e tvshowid seasonid episodeid s) =
                 episode_or_empty md seasonid episodeid"
      by (simp add: em episode_metadata_recover_def metadata_after_invalidate)
  }
  {
    fix v md
    assume "episode_or_empty md seasonid episodeid = Inr v"
    then show "v = (case found_episode md seasonid episodeid of Some ep \<Rightarrow> ep | None \<Rightarrow> PyDict [])"
      by (rule episode_or_empty_Inr)
  }
next
  assume "fst (episode_metadata_try e tvshowid episodeid s) \<noteq> Inl KeyError"
  then show "episode_metadata e tvshowid seasonid episodeid s = episode_metadata_try e tvshowid episodeid s"
    by (cases "episode_metadata_try e tvshowid episodeid s")
       (auto simp: episode_metadata_def split: sum.splits error.splits)
qed

theorem episode_metadata_recovery_witness:
  "episode_metadata_try (example_env False service_up) (PyStr ''70143836'') (PyStr ''e2'') example_state
     = (Inl KeyError, example_state)
   \<and> remote (example_env False service_up) (Suc (length (trace example_state))) NetflixSession_get
        (metadata_request (PyStr ''70143836'')) = Some (PyDict [(''video'', example_new_metadata)])
   \<and> py_getitem (PyDict [(''video'', example_new_metadata)]) ''video'' = Inr example_new_metadata
   \<and> episode_or_empty example_new_metadata (PyStr ''s1'') (PyStr ''e2'')
       = Inr (PyDict [(''title'', PyStr ''Second'')])
   \<and> trace (snd (episode_metadata (example_env False service_up) (PyStr ''70143836'') (PyStr ''s1'')
                   (PyStr ''e2'') example_state)) =
       trace example_state @ [Invalidate_entry CACHE_METADATA (PyStr ''70143836''),
                              Call NetflixSession_get (metadata_request (PyStr ''70143836''))]
   \<and> fst (episode_metadata (example_env False service_up) (PyStr ''70143836'') (PyStr ''s1'')
            (PyStr ''e2'') example_state) = Inr (PyDict [(''title'', PyStr ''Second'')])
   \<and> found_episode example_new_metadata (PyStr ''s1'') (PyStr ''e2'')
       = Some (PyDict [(''title'', PyStr ''Second'')])
   \<and> fst (episode_metadata_try (example_env False service_up) (PyStr ''70143836'') (PyStr ''e1'')
            example_state) \<noteq> Inl KeyError
   \<and> episode_metadata (example_env False service_up) (PyStr ''70143836'') (PyStr ''s1'')
        (PyStr ''e1'') example_state = (Inr (PyDict [(''title'', PyStr ''Pilot'')]), example_state)
   \<and> episode_metadata_try (example_env False service_without_video) (PyStr ''70143836'')
        (PyStr ''e2'') example_state = (Inl KeyError, example_state)
   \<and> remote (example_env False service_without_video) (Suc (length (trace example_state)))
        NetflixSession_get (metadata_request (PyStr ''70143836'')) = Some (PyDict [])
   \<and> py_getitem (PyDict []) ''video'' = Inl KeyError
   \<and> fst (episode_metadata (example_env False service_without_video) (PyStr ''70143836'')
            (PyStr ''s1'') (PyStr ''e2'') example_state) = Inl KeyError
   \<and> remote (example_env False service_down) (Suc (length (trace example_state)))
        NetflixSession_get (metadata_request (PyStr ''70143836'')) = None"
proof -
  let ?e = "example_env False service_up"
  let ?w = "example_env False service_without_video"
  let ?tv = "PyStr ''70143836''"
  have w1: "episode_metadata_try ?w ?tv (PyStr ''e2'') example_state = (Inl KeyError, example_state)"
    by (simp add: ex_defs cache_defs md_defs)
  have w2: "remote ?w (Suc (length (trace example_state))) NetflixSession_get (metadata_request ?tv)
      = Some (PyDict [])"
    by (simp add: example_env_def service_without_video_def)
  have w3: "py_getitem (PyDict []) ''video'' = Inl KeyError"
    by (simp add: py_getitem_def)
  have w4: "fst (episode_metadata ?w ?tv (PyStr ''s1'') (PyStr ''e2'') example_state) = Inl KeyError"
    using episode_metadata_recovery[where e = ?w and tvshowid = ?tv and episodeid = "PyStr ''e2''"
        and s = example_state and ?s1.0 = example_state and seasonid = "PyStr ''s1''"]
      w1 w2 w3 by blast
  have d2: "remote (example_env False service_down) (Suc (length (trace example_state)))
        NetflixSession_get (metadata_request ?tv) = None"
    by (simp add: example_env_def service_down_def)
  have h1: "episode_metadata_try ?e ?tv (PyStr ''e2'') example_state = (Inl KeyError, example_state)"
    by (simp add: ex_defs cache_defs md_defs)
  have h2: "remote ?e (Suc (length (trace example_state))) NetflixSession_get (metadata_request ?tv)
      = Some (PyDict [(''video'', example_new_metadata)])"
    by (simp add: example_env_def service_up_def)
  have h3: "py_getitem (PyDict [(''video'', example_new_metadata)]) ''video'' = Inr example_new_metadata"
    by (simp add: py_getitem_def)
  have h4: "episode_or_empty example_new_metadata (PyStr ''s1'') (PyStr ''e2'')
       = Inr (PyDict [(''title'', PyStr ''Second'')])"
    by (simp add: episode_or_empty_def py_get_def example_new_metadata_def)
  have h5: "fst (episode_metadata_try ?e ?tv (PyStr ''e1'') example_state) \<noteq> Inl KeyError"
    by (simp add: ex_defs cache_defs md_defs)
  have h6: "episode_metadata_try ?e ?tv (PyStr ''e1'') example_state
      = (Inr (PyDict [(''title'', PyStr ''Pilot'')]), example_state)"
    by (simp add: ex_defs cache_defs md_defs)
  note A = episode_metadata_recovery[where e = ?e and tvshowid = ?tv and episodeid = "PyStr ''e2''" and s = example_state
      and ?s1.0 = example_state and seasonid = "PyStr ''s1''"]
  note B = episode_metadata_recovery[where e = ?e and tvshowid = ?tv and episodeid = "PyStr ''e1''" and s = example_state
      and seasonid = "PyStr ''s1''"]
  have r1: "trace (snd (episode_metadata ?e ?tv (PyStr ''s1'') (PyStr ''e2'') example_state)) =
       trace example_state @ [Invalidate_entry CACHE_METADATA ?tv,
                              Call NetflixSession_get (metadata_request ?tv)]"
    using A h1 by blast
  have r2: "fst (episode_metadata ?e ?tv (PyStr ''s1'') (PyStr ''e2'') example_state)
       = episode_or_empty example_new_metadata (PyStr ''s1'') (PyStr ''e2'')"
    using A h1 h2 h3 by blast
  have r3: "PyDict [(''title'', PyStr ''Second'')] =
      (case found_episode example_new_metadata (PyStr ''s1'') (PyStr ''e2'') of
         Some ep \<Rightarrow> ep | None \<Rightarrow> PyDict [])"
    using A h1 h2 h3 h4 by blast
  have r4: "found_episode example_new_metadata (PyStr ''s1'') (PyStr ''e2'')
       = Some (PyDict [(''title'', PyStr ''Second'')])"
    using r3 by (simp add: found_episode_def dict_lookup_def example_new_metadata_def)
  have r5: "episode_metadata ?e ?tv (PyStr ''s1'') (PyStr ''e1'') example_state
       = (Inr (PyDict [(''title'', PyStr ''Pilot'')]), example_state)"
    using B h5 h6 by simp
  show ?thesis
    using h1 h2 h3 h4 h5 r1 r2 r4 r5 w1 w2 w3 w4 d2 by simp
qed

text \<open>
  The episode is missing from the cached aggregate and the service is down: the result
  of \<^verbatim>\<open>episode_metadata\<close> is the error of the failed call, neither an episode nor an
  empty dictionary.
\<close>

theorem episode_metadata_failed_refetch_counterexample:
  "episode_metadata_try (example_env False service_down) (PyStr ''70143836'') (PyStr ''e2'') example_state
     = (Inl KeyError, example_state)
   \<and> fst (episode_metadata (example_env False service_down) (PyStr ''70143836'') (PyStr ''s1'')
            (PyStr ''e2'') example_state) = Inl CallError"
  by (simp add: ex_defs cache_defs md_defs)

section \<open>Cache keys and registrations\<close>

text \<open>
  C5. The cache key of a call is a function of the registration and the argument list
  alone (the state is not an argument of \<open>build_key\<close>), and two argument lists with the
  same designated argument give the same key, whatever the other arguments are. For
  \<^verbatim>\<open>episodes(tvshow_id, season_id)\<close> the designated argument is position 1: two
  calls with the same season id and different show ids have the same key, the call goes
  to the engine under the key (CACHE_EPISODES, season id), and a fresh entry under
  that key answers the call for every show id.
\<close>

theorem cache_key_of_designated_argument:
  "(designated_argument r args1 = designated_argument r args2
      \<longrightarrow> build_key r args1 = build_key r args2)
   \<and> build_key reg_episodes [tvshow_id1, season_id] = build_key reg_episodes [tvshow_id2, season_id]
   \<and> episodes e tvshow_id1 season_id s =
       get_or_compute e (CACHE_EPISODES, season_id) (episodes_body e tvshow_id1 season_id) None False s
   \<and> (lookup_fresh (mem s) (CACHE_EPISODES, season_id) (now s) = Some en
      \<longrightarrow> episodes e tvshow_id1 season_id s = (Inr (payload en), s)
        \<and> episodes e tvshow_id2 season_id s = (Inr (payload en), s))"
  by (auto simp: build_key_def designated_argument_def reg_episodes_def episodes_def
        cache_output_def get_or_compute_def split: option.splits)

theorem cache_key_of_designated_argument_witness:
  "designated_argument reg_episodes [PyStr ''80025172'', PyStr ''80025272''] =
     designated_argument reg_episodes [PyStr ''70143836'', PyStr ''80025272'']
   \<and> build_key reg_episodes [PyStr ''80025172'', PyStr ''80025272''] =
     build_key reg_episodes [PyStr ''70143836'', PyStr ''80025272'']
   \<and> build_key reg_episodes [PyStr ''80025172'', PyStr ''80025272''] =
     Some (CACHE_EPISODES, PyStr ''80025272'')"
  using cache_key_of_designated_argument
    [of reg_episodes "[PyStr ''80025172'', PyStr ''80025272'']"
        "[PyStr ''70143836'', PyStr ''80025272'']"]
  by (simp add: designated_argument_def build_key_def reg_episodes_def)

text \<open>
  C6. \<^verbatim>\<open>root_lists\<close> is registered in the common bucket with the fixed identifier
  \<open>root_lists\<close>: whatever the arguments of a call, its key is
  (CACHE_COMMON, \<open>root_lists\<close>), and every call goes to the engine under that one key.
\<close>

theorem root_lists_key:
  "build_key reg_root_lists args = Some (CACHE_COMMON, PyStr ''root_lists'')
   \<and> root_lists e s =
       get_or_compute e (CACHE_COMMON, PyStr ''root_lists'') (root_lists_body e) None False s"
  by (simp add: root_lists_def cache_output_def build_key_def reg_root_lists_def)

text \<open>
  C7. Each of the eight cached operations is the cache engine applied to its producer
  with the expiry and the disk flag of its registration. \<^verbatim>\<open>metadata\<close> alone passes
  an explicit expiry (\<open>CACHE_METADATA_TTL\<close>) and allows the disk tier. The seven
  others pass no expiry and do not allow the disk tier: their entries get the default
  expiry of their bucket and are written to the memory tier only. The table of the
  registrations says the same.
\<close>

theorem metadata_alone_overrides_expiry_and_uses_disk:
  "root_lists e s =
     get_or_compute e (CACHE_COMMON, PyStr ''root_lists'') (root_lists_body e) None False s
   \<and> list_id_for_type e list_type s =
     get_or_compute e (CACHE_COMMON, list_type) (list_id_for_type_body e list_type) None False s
   \<and> video_list e list_id s =
     get_or_compute e (CACHE_VIDEO_LIST, list_id) (video_list_body e list_id) None False s
   \<and> seasons e tvshow_id s =
     get_or_compute e (CACHE_SEASONS, tvshow_id) (seasons_body e tvshow_id) None False s
   \<and> episodes e tvshow_id season_id s =
     get_or_compute e (CACHE_EPISODES, season_id) (episodes_body e tvshow_id season_id) None False s
   \<and> episode e tvshow_id episode_id s =
     get_or_compute e (CACHE_EPISODES, episode_id) (episode_body e tvshow_id episode_id) None False s
   \<and> movie e movie_id s =
     get_or_compute e (CACHE_EPISODES, movie_id) (movie_body e movie_id) None False s
   \<and> metadata e video_id s =
     get_or_compute e (CACHE_METADATA, video_id) (metadata_body e video_id)
       (Some (CACHE_METADATA_TTL e)) True s
   \<and> expiry_of e b None = default_ttl e b
   \<and> expiry_of e b (Some (CACHE_METADATA_TTL e)) = CACHE_METADATA_TTL e
   \<and> map (\<lambda>(name, r). (name, ttl_override r, to_disk r)) (cached_operations e) =
     [(''root_lists'', None, False), (''list_id_for_type'', None, False),
      (''video_list'', None, False), (''seasons'', None, False),
      (''episodes'', None, False), (''episode'', None, False),
      (''movie'', None, False), (''metadata'', Some (CACHE_METADATA_TTL e), True)]"
proof (intro conjI)
  show "root_lists e s =
     get_or_compute e (CACHE_COMMON, PyStr ''root_lists'') (root_lists_body e) None False s"
    by (simp add: root_lists_def cache_output_def build_key_def reg_root_lists_def)
  show "list_id_for_type e list_type s =
     get_or_compute e (CACHE_COMMON, list_type) (list_id_for_type_body e list_type) None False s"
    by (simp add: list_id_for_type_def cache_output_def build_key_def designated_argument_def
          reg_list_id_for_type_def)
  show "video_list e list_id s =
     get_or_compute e (CACHE_VIDEO_LIST, list_id) (video_list_body e list_id) None False s"
    by (simp add: video_list_def cache_output_def build_key_def designated_argument_def
          reg_video_list_def)
  show "seasons e tvshow_id s =
     get_or_compute e (CACHE_SEASONS, tvshow_id) (seasons_body e tvshow_id) None False s"
    by (simp add: seasons_def cache_output_def build_key_def designated_argument_def
          reg_seasons_def)
  show "episodes e tvshow_id season_id s =
     get_or_compute e (CACHE_EPISODES, season_id) (episodes_body e tvshow_id season_id) None False s"
    by (simp add: episodes_def cache_output_def build_key_def designated_argument_def
          reg_episodes_def)
  show "episode e tvshow_id episode_id s =
     get_or_compute e (CACHE_EPISODES, episode_id) (episode_body e tvshow_id episode_id) None False s"
    by (simp add: episode_def cache_output_def build_key_def designated_argument_def
          reg_episode_def)
  show "movie e movie_id s =
     get_or_compute e (CACHE_EPISODES, movie_id) (movie_body e movie_id) None False s"
    by (simp add: movie_def cache_output_def build_key_def designated_argument_def
          reg_movie_def)
  show "metadata e video_id s =
     get_or_compute e (CACHE_METADATA, video_id) (metadata_body e video_id)
       (Some (CACHE_METADATA_TTL e)) True s"
    by (simp add: metadata_def cache_output_def build_key_def designated_argument_def
          reg_metadata_def)
  show "expiry_of e b None = default_ttl e b"
    by (simp add: expiry_of_def)
  show "expiry_of e b (Some (CACHE_METADATA_TTL e)) = CACHE_METADATA_TTL e"
    by (simp add: expiry_of_def)
  show "map (\<lambda>(name, r). (name, ttl_override r, to_disk r)) (cached_operations e) =
     [(''root_lists'', None, False), (''list_id_for_type'', None, False),
      (''video_list'', None, False), (''seasons'', None, False),
      (''episodes'', None, False), (''episode'', None, False),
      (''movie'', None, False), (''metadata'', Some (CACHE_METADATA_TTL e), True)]"
    by (simp add: cached_operations_def reg_root_lists_def reg_list_id_for_type_def
          reg_video_list_def reg_seasons_def reg_episodes_def reg_episode_def reg_movie_def
          reg_metadata_def)
qed

section \<open>Rating\<close>

text \<open>
  C10, as amended. For every rating that is a number of value \<open>q\<close>, \<^verbatim>\<open>rate\<close> makes
  exactly one remote call, a post whose \<open>params\<close> hold the video id under \<open>titleid\<close>
  and, under \<open>rating\<close>, the float \<open>min 10 (max 0 q) / 2\<close>, which lies between 0 and 5.
  The division is true division: for an integer rating the transmitted value is the
  floor of the half plus one half when the clamped rating is odd, so odd ratings give
  half steps. A rating that is no number raises TypeError before any call.
\<close>

theorem rate_transmits_half_of_clamped_rating:
  "(number_value rating = Some q \<longrightarrow>
      snd (rate e video_id rating s) =
        s\<lparr>trace := trace s @
          [Call NetflixSession_post
             [PyDict [(''component'', PyStr ''set_video_rating''),
                      (''headers'',
                       PyDict [(''Content-Type'', PyStr ''application/json''),
                               (''Accept'', PyStr ''application/json, text/javascript, */*'')]),
                      (''params'',
                       PyDict [(''titleid'', video_id),
                               (''rating'', PyFloat (min 10 (max 0 q) / 2))])]]]\<rparr>
      \<and> 0 \<le> min 10 (max 0 q) / 2 \<and> min 10 (max 0 q) / 2 \<le> 5)
   \<and> number_value (PyInt n) = Some (of_int n)
   \<and> min 10 (max 0 (of_int n :: rat)) / 2 =
       of_int (min 10 (max 0 n) div 2) + (if odd (min 10 (max 0 n)) then 1 / 2 else 0)
   \<and> (number_value rating = None \<longrightarrow> rate e video_id rating s = (Inl TypeError, s))"
proof (intro conjI impI)
  assume q: "number_value rating = Some q"
  then show "snd (rate e video_id rating s) =
        s\<lparr>trace := trace s @
          [Call NetflixSession_post
             [PyDict [(''component'', PyStr ''set_video_rating''),
                      (''headers'',
                       PyDict [(''Content-Type'', PyStr ''application/json''),
                               (''Accept'', PyStr ''application/json, text/javascript, */*'')]),
                      (''params'',
                       PyDict [(''titleid'', video_id),
                               (''rating'', PyFloat (min 10 (max 0 q) / 2))])]]]\<rparr>"
    by (simp add: rate_def netflix_rating_def rate_request_def request_headers_def
          make_call_def Let_def split: option.splits)
  show "0 \<le> min 10 (max 0 q) / 2" by simp
  show "min 10 (max 0 q) / 2 \<le> 5" by simp
next
  show "number_value (PyInt n) = Some (of_int n)"
    by (simp add: number_value_def)
  have "min 10 (max 0 (of_int n :: rat)) = of_int (min 10 (max 0 n))"
    by (simp add: min_def max_def)
  then show "min 10 (max 0 (of_int n :: rat)) / 2 =
       of_int (min 10 (max 0 n) div 2) + (if odd (min 10 (max 0 n)) then 1 / 2 else 0)"
    by (simp only: half_of_int)
next
  assume "number_value rating = None"
  then show "rate e video_id rating s = (Inl TypeError, s)"
    by (simp add: rate_def netflix_rating_def)
qed

theorem rate_transmits_half_of_clamped_rating_witness:
  "number_value (PyInt 4) = Some 4
   \<and> snd (rate (example_env False service_up) (PyStr ''80057281'') (PyInt 4) empty_state) =
        empty_state\<lparr>trace := trace empty_state @
          [Call NetflixSession_post
             [PyDict [(''component'', PyStr ''set_video_rating''),
                      (''headers'',
                       PyDict [(''Content-Type'', PyStr ''application/json''),
                               (''Accept'', PyStr ''application/json, text/javascript, */*'')]),
                      (''params'',
                       PyDict [(''titleid'', PyStr ''80057281''),
                               (''rating'', PyFloat 2)])]]]\<rparr>
   \<and> number_value (PyFloat 13) = Some 13
   \<and> snd (rate (example_env False service_up) (PyStr ''80057281'') (PyFloat 13) empty_state) =
        empty_state\<lparr>trace := trace empty_state @
          [Call NetflixSession_post
             [PyDict [(''component'', PyStr ''set_video_rating''),
                      (''headers'',
                       PyDict [(''Content-Type'', PyStr ''application/json''),
                               (''Accept'', PyStr ''application/json, text/javascript, */*'')]),
                      (''params'',
                       PyDict [(''titleid'', PyStr ''80057281''),
                               (''rating'', PyFloat 5)])]]]\<rparr>
   \<and> number_value (PyStr ''good'') = None
   \<and> rate (example_env False service_up) (PyStr ''80057281'') (PyStr ''good'') empty_state
        = (Inl TypeError, empty_state)"
proof -
  let ?e = "example_env False service_up" and ?vid = "PyStr ''80057281''"
  have a: "number_value (PyInt 4) = Some 4" "number_value (PyFloat 13) = Some 13"
    "number_value (PyStr ''good'') = None"
    by (simp_all add: number_value_def)
  note A = rate_transmits_half_of_clamped_rating[where rating = "PyInt 4" and q = 4 and e = ?e
      and video_id = ?vid and s = empty_state]
  note B = rate_transmits_half_of_clamped_rating[where rating = "PyFloat 13" and q = 13 and e = ?e
      and video_id = ?vid and s = empty_state]
  note C = rate_transmits_half_of_clamped_rating[where rating = "PyStr ''good''" and e = ?e
      and video_id = ?vid and s = empty_state]
  have r1: "snd (rate ?e ?vid (PyInt 4) empty_state) =
        empty_state\<lparr>trace := trace empty_state @
          [Call NetflixSession_post
             [PyDict [(''component'', PyStr ''set_video_rating''),
                      (''headers'',
                       PyDict [(''Content-Type'', PyStr ''application/json''),
                               (''Accept'', PyStr ''application/json, text/javascript, */*'')]),
                      (''params'',
                       PyDict [(''titleid'', ?vid), (''rating'', PyFloat 2)])]]]\<rparr>"
    using A a(1) by simp
  have r2: "snd (rate ?e ?vid (PyFloat 13) empty_state) =
        empty_state\<lparr>trace := trace empty_state @
          [Call NetflixSession_post
             [PyDict [(''component'', PyStr ''set_video_rating''),
                      (''headers'',
                       PyDict [(''Content-Type'', PyStr ''application/json''),
                               (''Accept'', PyStr ''application/json, text/javascript, */*'')]),
                      (''params'',
                       PyDict [(''titleid'', ?vid), (''rating'', PyFloat 5)])]]]\<rparr>"
    using B a(2) by simp
  have r3: "rate ?e ?vid (PyStr ''good'') empty_state = (Inl TypeError, empty_state)"
    using C a(3) by blast
  show ?thesis
    using a r1 r2 r3 by blast
qed

text \<open>
  The rating 7 is transmitted as the float 3.5, a half step, not as the integer
  \<open>7 div 2 = 3\<close>.
\<close>

theorem rate_odd_rating_half_step_counterexample:
  "snd (rate (example_env False service_up) (PyStr ''80057281'') (PyInt 7) empty_state) =
        empty_state\<lparr>trace :=
          [Call NetflixSession_post
             [PyDict [(''component'', PyStr ''set_video_rating''),
                      (''headers'',
                       PyDict [(''Content-Type'', PyStr ''application/json''),
                               (''Accept'', PyStr ''application/json, text/javascript, */*'')]),
                      (''params'',
                       PyDict [(''titleid'', PyStr ''80057281''),
                               (''rating'', PyFloat (7 / 2))])]]]\<rparr>
   \<and> PyFloat (7 / 2) \<noteq> PyInt (min 10 (max 0 7) div 2)
   \<and> (7 / 2 :: rat) \<noteq> of_int (min 10 (max 0 7) div 2)"
  by (simp add: rate_def netflix_rating_def number_value_def rate_request_def request_headers_def
        make_call_def Let_def example_env_def service_up_def empty_state_def)

end
